theory Spec2Isabelle
  imports Complex_Main "HOL-Library.Monad_Syntax"
begin

section \<open>Python strings\<close>

text \<open>
  A Python \<open>str\<close> is modelled as a \<open>string\<close>: a list of characters with code points
  below 256, which covers the ASCII two-line element format the tracker reads.
  The builtins the tracker calls on strings are written out below with the behaviour
  CPython has on that range.
\<close>

text \<open>\<open>s.startswith(p)\<close>\<close>

fun startswith :: "string \<Rightarrow> string \<Rightarrow> bool" where
  "startswith s [] = True"
| "startswith [] (p # ps) = False"
| "startswith (c # cs) (p # ps) = (c = p \<and> startswith cs ps)"

text \<open>\<open>sub in s\<close>: \<open>sub\<close> occurs in \<open>s\<close> as a contiguous run.\<close>

fun py_in :: "string \<Rightarrow> string \<Rightarrow> bool" where
  "py_in sub [] = (sub = [])"
| "py_in sub (c # cs) = (startswith (c # cs) sub \<or> py_in sub cs)"

text \<open>\<open>s.lower()\<close>: the upper-case letters below 256 are A to Z and 192 to 222 but 215.\<close>

definition lower_char :: "char \<Rightarrow> char" where
  "lower_char c =
     (let n = (of_char c :: nat)
      in if (65 \<le> n \<and> n \<le> 90) \<or> (192 \<le> n \<and> n \<le> 222 \<and> n \<noteq> 215)
         then char_of (n + 32) else c)"

definition py_lower :: "string \<Rightarrow> string" where
  "py_lower s = map lower_char s"

text \<open>\<open>c.isspace()\<close>, the characters \<open>s.strip()\<close> removes at both ends.\<close>

definition py_isspace :: "char \<Rightarrow> bool" where
  "py_isspace c =
     (let n = (of_char c :: nat)
      in (9 \<le> n \<and> n \<le> 13) \<or> (28 \<le> n \<and> n \<le> 32) \<or> n = 133 \<or> n = 160)"

definition py_strip :: "string \<Rightarrow> string" where
  "py_strip s = rev (dropWhile py_isspace (rev (dropWhile py_isspace s)))"

text \<open>\<open>s.split('\n')\<close>: always at least one piece.\<close>

fun split_nl :: "string \<Rightarrow> string list" where
  "split_nl [] = [[]]"
| "split_nl (c # cs) =
     (if c = CHR 0x0A then [] # split_nl cs
      else (c # hd (split_nl cs)) # tl (split_nl cs))"

text \<open>\<open>s[a:b]\<close> for \<open>0 \<le> a \<le> b\<close>: the slice is cut short at the end of the string.\<close>

definition slice :: "nat \<Rightarrow> nat \<Rightarrow> string \<Rightarrow> string" where
  "slice a b s = take (b - a) (drop a s)"

text \<open>\<open>s < t\<close> on strings: lexicographic on the code points.\<close>

fun str_lt :: "string \<Rightarrow> string \<Rightarrow> bool" where
  "str_lt [] [] = False"
| "str_lt [] (y # ys) = True"
| "str_lt (x # xs) [] = False"
| "str_lt (x # xs) (y # ys) =
     ((of_char x :: nat) < of_char y \<or> (x = y \<and> str_lt xs ys))"

text \<open>
  \<open>int(s)\<close> in base 10, \<open>None\<close> where Python raises \<open>ValueError\<close>. White space at
  both ends is dropped (here the characters 9 to 13, 32, 133 and 160: the separators
  28 to 31 are not white space for \<open>int\<close>), then comes an optional sign and a run of
  digits in which single underscores may stand between two digits.
\<close>

definition int_space :: "char \<Rightarrow> bool" where
  "int_space c =
     (let n = (of_char c :: nat) in (9 \<le> n \<and> n \<le> 13) \<or> n = 32 \<or> n = 133 \<or> n = 160)"

definition is_digit :: "char \<Rightarrow> bool" where
  "is_digit c = (let n = (of_char c :: nat) in 48 \<le> n \<and> n \<le> 57)"

definition digit_val :: "char \<Rightarrow> nat" where
  "digit_val c = of_char c - 48"

text \<open>
  The digits of the run, read left to right with the value so far; the flag says whether
  the previous character was a digit (an underscore must follow a digit and be followed
  by one).
\<close>

fun digits_value :: "string \<Rightarrow> bool \<Rightarrow> nat \<Rightarrow> nat option" where
  "digits_value [] prev_digit acc = (if prev_digit then Some acc else None)"
| "digits_value (c # cs) prev_digit acc =
     (if is_digit c then digits_value cs True (10 * acc + digit_val c)
      else if c = CHR ''_'' \<and> prev_digit \<and> cs \<noteq> [] \<and> is_digit (hd cs)
        then digits_value cs False acc
      else None)"

definition py_int :: "string \<Rightarrow> int option" where
  "py_int s =
     (let body = rev (dropWhile int_space (rev (dropWhile int_space s)))
      in case body of
           [] \<Rightarrow> None
         | c # cs \<Rightarrow>
             if c = CHR ''-'' then map_option (\<lambda>n. - int n) (digits_value cs False 0)
             else if c = CHR ''+'' then map_option int (digits_value cs False 0)
             else map_option int (digits_value (c # cs) False 0))"

section \<open>Categories\<close>

text \<open>The keys of the dictionary \<open>_define_categories\<close> returns.\<close>

datatype category =
    ISS | GPS | GLONASS | Galileo | BeiDou | Weather | Earth_Observation | Communication
  | Starlink | OneWeb | Iridium | Scientific | Space_Telescopes | Military | CubeSats
  | Amateur_Radio | Technology_Demo | Debris_Tracking | Geostationary | LEO_Constellation
  | Commercial | Rocket_Bodies | Other

text \<open>The \<open>color\<close> entry of each category.\<close>

fun color :: "category \<Rightarrow> string" where
  "color ISS = ''#FF6B6B''"
| "color GPS = ''#4ECDC4''"
| "color GLONASS = ''#FF8C42''"
| "color Galileo = ''#6A4C93''"
| "color BeiDou = ''#F25C54''"
| "color Weather = ''#45B7D1''"
| "color Earth_Observation = ''#52B788''"
| "color Communication = ''#96CEB4''"
| "color Starlink = ''#E9C46A''"
| "color OneWeb = ''#F4A261''"
| "color Iridium = ''#E76F51''"
| "color Scientific = ''#FFEAA7''"
| "color Space_Telescopes = ''#264653''"
| "color Military = ''#DDA0DD''"
| "color CubeSats = ''#F72585''"
| "color Amateur_Radio = ''#4CC9F0''"
| "color Technology_Demo = ''#7209B7''"
| "color Debris_Tracking = ''#A44A3F''"
| "color Geostationary = ''#F77F00''"
| "color LEO_Constellation = ''#FCBF49''"
| "color Commercial = ''#FFB347''"
| "color Rocket_Bodies = ''#8B5A3C''"
| "color Other = ''#A8A8A8''"

text \<open>\<open>_categorize_satellite\<close>, the cascade of the source in its order.\<close>

definition categorize_satellite :: "string \<Rightarrow> int \<Rightarrow> category" where
  "categorize_satellite name norad_id =
     (let name_lower = py_lower name in
      if norad_id = 25544 \<or> py_in ''iss'' name_lower then ISS
      else if py_in ''gps'' name_lower \<or> py_in ''navstar'' name_lower then GPS
      else if py_in ''glonass'' name_lower then GLONASS
      else if py_in ''galileo'' name_lower then Galileo
      else if py_in ''beidou'' name_lower \<or> py_in ''compass'' name_lower then BeiDou
      else if py_in ''starlink'' name_lower then Starlink
      else if py_in ''oneweb'' name_lower then OneWeb
      else if py_in ''iridium'' name_lower then Iridium
      else if py_in ''noaa'' name_lower \<or> py_in ''goes'' name_lower
            \<or> py_in ''meteosat'' name_lower \<or> py_in ''weather'' name_lower
            \<or> py_in ''metop'' name_lower \<or> py_in ''himawari'' name_lower then Weather
      else if py_in ''landsat'' name_lower \<or> py_in ''sentinel'' name_lower
            \<or> py_in ''terra'' name_lower \<or> py_in ''aqua'' name_lower
            \<or> py_in ''modis'' name_lower \<or> py_in ''worldview'' name_lower
        then Earth_Observation
      else if py_in ''hubble'' name_lower \<or> py_in ''kepler'' name_lower
            \<or> py_in ''tess'' name_lower \<or> py_in ''chandra'' name_lower
            \<or> py_in ''spitzer'' name_lower \<or> py_in ''jwst'' name_lower
            \<or> py_in ''telescope'' name_lower \<or> py_in ''observatory'' name_lower
        then Space_Telescopes
      else if py_in ''science'' name_lower \<or> py_in ''research'' name_lower
            \<or> py_in ''explorer'' name_lower \<or> py_in ''mission'' name_lower
            \<or> py_in ''experiment'' name_lower then Scientific
      else if py_in ''cubesat'' name_lower \<or> py_in ''cube'' name_lower
            \<or> py_in ''picosatellite'' name_lower \<or> py_in ''nanosat'' name_lower
            \<or> py_in ''microsat'' name_lower then CubeSats
      else if py_in ''amateur'' name_lower \<or> py_in ''ham'' name_lower
            \<or> (py_in ''radio'' name_lower \<and> py_in ''sat'' name_lower) then Amateur_Radio
      else if py_in ''demo'' name_lower \<or> py_in ''test'' name_lower
            \<or> py_in ''technology'' name_lower \<or> py_in ''experimental'' name_lower
        then Technology_Demo
      else if py_in ''usa'' name_lower \<or> py_in ''nro'' name_lower
            \<or> py_in ''dscs'' name_lower \<or> py_in ''milstar'' name_lower
            \<or> py_in ''sbirs'' name_lower \<or> py_in ''lacrosse'' name_lower then Military
      else if py_in ''rocket'' name_lower \<or> py_in ''r/b'' name_lower
            \<or> py_in ''debris'' name_lower \<or> py_in ''stage'' name_lower then Rocket_Bodies
      else if py_in ''intelsat'' name_lower \<or> py_in ''eutelsat'' name_lower
            \<or> py_in ''ses'' name_lower \<or> py_in ''communication'' name_lower
            \<or> py_in ''telecom'' name_lower \<or> py_in ''broadcast'' name_lower
        then Communication
      else if py_in ''geo'' name_lower \<or> py_in ''geostationary'' name_lower
        then Geostationary
      else Other)"

text \<open>
  The categorizer as the specification words it: an ordered table of rules, each a test
  on the lower-cased name and the catalog id with the category it gives, read top to
  bottom; the first rule that matches decides, and no match is \<open>Other\<close>.
\<close>

definition any_of :: "string list \<Rightarrow> string \<Rightarrow> int \<Rightarrow> bool" where
  "any_of keywords name_lower norad_id = list_ex (\<lambda>k. py_in k name_lower) keywords"

definition rule_table :: "((string \<Rightarrow> int \<Rightarrow> bool) \<times> category) list" where
  "rule_table =
     [(\<lambda>n i. i = 25544 \<or> py_in ''iss'' n, ISS),
      (any_of [''gps'', ''navstar''], GPS),
      (any_of [''glonass''], GLONASS),
      (any_of [''galileo''], Galileo),
      (any_of [''beidou'', ''compass''], BeiDou),
      (any_of [''starlink''], Starlink),
      (any_of [''oneweb''], OneWeb),
      (any_of [''iridium''], Iridium),
      (any_of [''noaa'', ''goes'', ''meteosat'', ''weather'', ''metop'', ''himawari''], Weather),
      (any_of [''landsat'', ''sentinel'', ''terra'', ''aqua'', ''modis'', ''worldview''],
         Earth_Observation),
      (any_of [''hubble'', ''kepler'', ''tess'', ''chandra'', ''spitzer'', ''jwst'',
               ''telescope'', ''observatory''], Space_Telescopes),
      (any_of [''science'', ''research'', ''explorer'', ''mission'', ''experiment''],
         Scientific),
      (any_of [''cubesat'', ''cube'', ''picosatellite'', ''nanosat'', ''microsat''], CubeSats),
      (\<lambda>n i. any_of [''amateur'', ''ham''] n i \<or> (py_in ''radio'' n \<and> py_in ''sat'' n),
         Amateur_Radio),
      (any_of [''demo'', ''test'', ''technology'', ''experimental''], Technology_Demo),
      (any_of [''usa'', ''nro'', ''dscs'', ''milstar'', ''sbirs'', ''lacrosse''], Military),
      (any_of [''rocket'', ''r/b'', ''debris'', ''stage''], Rocket_Bodies),
      (any_of [''intelsat'', ''eutelsat'', ''ses'', ''communication'', ''telecom'',
               ''broadcast''], Communication),
      (any_of [''geo'', ''geostationary''], Geostationary)]"

fun first_match :: "((string \<Rightarrow> int \<Rightarrow> bool) \<times> category) list \<Rightarrow> string \<Rightarrow> int \<Rightarrow> category" where
  "first_match [] n i = Other"
| "first_match ((p, c) # rules) n i = (if p n i then c else first_match rules n i)"

section \<open>The tracker's data and its environment\<close>

text \<open>
  A Python \<open>float\<close>: a finite value (the real number it stands for; the rounding of
  double precision is not modelled, the overflow of a quotient is), an infinity, or
  not-a-number.
\<close>

datatype pyfloat = Float real | PosInf | NegInf | NaN

text \<open>The entry kept for one satellite in \<open>self.satellites\<close>.\<close>

record 'sat sat_data =
  satellite :: 'sat
  name :: string
  tle_line1 :: string
  tle_line2 :: string
  category :: category

text \<open>One point of a ground track, the dictionary \<open>get_orbital_path\<close> appends.\<close>

record orbit_point =
  latitude :: real
  longitude :: real
  altitude :: real

text \<open>The observer \<open>wgs84.latlon(observer_lat, observer_lon, elevation_m=observer_alt)\<close>.\<close>

record observer =
  observer_lat :: real
  observer_lon :: real
  observer_alt :: real

text \<open>
  What the tracker calls and does not define: the HTTP client, the orbit propagation
  library and the date and number parsing of the standard library. Each is a parameter;
  \<open>None\<close> stands for a raised exception. A skyfield \<open>Time\<close> is the real number of its
  \<open>tt\<close> Julian date, so \<open>ts.tt_jd(x)\<close> is \<open>x\<close>, and a \<open>datetime\<close> is its number of
  seconds.

  \<^item> \<open>requests_get url\<close>: the text of \<open>requests.get(url, timeout=15)\<close> after
    \<open>raise_for_status()\<close>;
  \<^item> \<open>EarthSatellite line1 line2 name\<close>: the propagator object for an element set;
  \<^item> \<open>sat_at sat t\<close>: \<open>sat.at(t).position.km\<close>; \<open>subpoint pos t\<close>: the point below it;
  \<^item> \<open>py_float s\<close>: \<open>float(s)\<close>;
  \<^item> \<open>year_day_date year d\<close>:
    \<open>(datetime(year, 1, 1) + timedelta(days=d - 1)).strftime("%Y-%m-%d")\<close>;
  \<^item> \<open>find_events sat obs t0 t1\<close>: \<open>sat.find_events(obs, t0, t1, altitude_degrees=10.0)\<close>
    as the list of (time, event) pairs;
  \<^item> \<open>topocentric_altaz sat obs t\<close>: \<open>(sat - obs).at(t).altaz()\<close> in degrees and km;
  \<^item> \<open>utc_iso t\<close>: \<open>t.utc_iso()\<close>;
    \<open>fromisoformat s\<close>: \<open>datetime.fromisoformat(s.replace('Z', '+00:00'))\<close>;
    \<open>from_datetime dt\<close>: \<open>ts.from_datetime(dt)\<close>.
\<close>

record 'sat env =
  requests_get :: "string \<Rightarrow> string option"
  EarthSatellite :: "string \<Rightarrow> string \<Rightarrow> string \<Rightarrow> 'sat option"
  sat_at :: "'sat \<Rightarrow> real \<Rightarrow> (real \<times> real \<times> real) option"
  subpoint :: "real \<times> real \<times> real \<Rightarrow> real \<Rightarrow> orbit_point option"
  py_float :: "string \<Rightarrow> pyfloat option"
  year_day_date :: "int \<Rightarrow> pyfloat \<Rightarrow> string option"
  find_events :: "'sat \<Rightarrow> observer \<Rightarrow> real \<Rightarrow> real \<Rightarrow> (real \<times> int) list option"
  topocentric_altaz :: "'sat \<Rightarrow> observer \<Rightarrow> real \<Rightarrow> (real \<times> real \<times> real) option"
  utc_iso :: "real \<Rightarrow> string"
  fromisoformat :: "string \<Rightarrow> real option"
  from_datetime :: "real \<Rightarrow> real"

text \<open>
  The tracker object: \<open>satellites\<close> is the dictionary in its insertion order (a list of
  key and entry), \<open>cat_members c\<close> the list \<open>self.categories[c]['satellites']\<close>.
\<close>

record 'sat tracker =
  satellites :: "(int \<times> 'sat sat_data) list"
  cat_members :: "category \<Rightarrow> int list"
  last_update :: "real option"

definition update_interval :: real where
  "update_interval = 86400"

section \<open>Loading the element sets\<close>

text \<open>
  The lines \<open>i\<close>, \<open>i + 1\<close>, \<open>i + 2\<close> for \<open>i\<close> in \<open>range(0, len(lines) - 2, 3)\<close>: the
  consecutive groups of three lines, a shorter rest left out.
\<close>

fun triplets :: "string list \<Rightarrow> (string \<times> string \<times> string) list" where
  "triplets (a # b # c # rest) = (a, b, c) # triplets rest"
| "triplets rest = []"

text \<open>
  The body of the parsing loop up to the test for a known id: the three lines stripped,
  the format check, the propagator object and the id read from columns 2 to 6 of line 1.
  \<open>None\<close> where the check fails or \<open>EarthSatellite\<close> or \<open>int\<close> raises (the loop goes on
  with the next record in each case).
\<close>

definition tle_record :: "'sat env \<Rightarrow> string \<times> string \<times> string \<Rightarrow> (int \<times> 'sat sat_data) option" where
  "tle_record E t =
     (case t of (l0, l1, l2) \<Rightarrow>
        let nm = py_strip l0; line1 = py_strip l1; line2 = py_strip l2 in
        if startswith line1 ''1 '' \<and> startswith line2 ''2 ''
           \<and> length line1 = 69 \<and> length line2 = 69
        then case EarthSatellite E line1 line2 nm of
               None \<Rightarrow> None
             | Some sat \<Rightarrow>
                 (case py_int (slice 2 7 line1) of
                    None \<Rightarrow> None
                  | Some norad_id \<Rightarrow>
                      Some (norad_id,
                        \<lparr>satellite = sat, name = nm, tle_line1 = line1, tle_line2 = line2,
                         category = categorize_satellite nm norad_id\<rparr>))
        else None)"

text \<open>
  The parsing loop over the records of one response. The state is \<open>all_satellites\<close>,
  \<open>satellite_count\<close> and \<open>url_satellite_count\<close>.
\<close>

fun parse_tle :: "'sat env \<Rightarrow> (string \<times> string \<times> string) list
    \<Rightarrow> (int \<times> 'sat sat_data) list \<times> nat \<times> nat \<Rightarrow> (int \<times> 'sat sat_data) list \<times> nat \<times> nat" where
  "parse_tle E [] st = st"
| "parse_tle E (t # rest) (all_satellites, satellite_count, url_satellite_count) =
     (if 2000 \<le> satellite_count \<or> 2000 \<le> url_satellite_count
      then (all_satellites, satellite_count, url_satellite_count)
      else case tle_record E t of
             None \<Rightarrow> parse_tle E rest (all_satellites, satellite_count, url_satellite_count)
           | Some (norad_id, d) \<Rightarrow>
               if map_of all_satellites norad_id = None
               then parse_tle E rest
                      (all_satellites @ [(norad_id, d)], Suc satellite_count,
                       Suc url_satellite_count)
               else parse_tle E rest (all_satellites, satellite_count, url_satellite_count))"

text \<open>
  The loop over the URLs of one source set. The state is \<open>all_satellites\<close>,
  \<open>satellite_count\<close>, \<open>successful_loads\<close> and the list of the URLs requested so far
  (kept to say which requests were made).
\<close>

fun load_urls :: "'sat env \<Rightarrow> string list
    \<Rightarrow> (int \<times> 'sat sat_data) list \<times> nat \<times> nat \<times> string list
    \<Rightarrow> (int \<times> 'sat sat_data) list \<times> nat \<times> nat \<times> string list" where
  "load_urls E [] st = st"
| "load_urls E (url # urls) (all_satellites, satellite_count, successful_loads, requested) =
     (if 2000 \<le> satellite_count
      then (all_satellites, satellite_count, successful_loads, requested)
      else case requests_get E url of
             None \<Rightarrow>
               load_urls E urls
                 (all_satellites, satellite_count, successful_loads, requested @ [url])
           | Some text \<Rightarrow>
               (case parse_tle E (triplets (split_nl (py_strip text)))
                       (all_satellites, satellite_count, 0) of
                  (all_satellites', satellite_count', url_satellite_count) \<Rightarrow>
                    load_urls E urls
                      (all_satellites', satellite_count',
                       if 0 < url_satellite_count then Suc successful_loads
                       else successful_loads,
                       requested @ [url])))"

text \<open>The loop over the source sets, in their order.\<close>

fun load_source_sets :: "'sat env \<Rightarrow> string list list
    \<Rightarrow> (int \<times> 'sat sat_data) list \<times> nat \<times> string list
    \<Rightarrow> (int \<times> 'sat sat_data) list \<times> nat \<times> string list" where
  "load_source_sets E [] st = st"
| "load_source_sets E (tle_urls # sets) (all_satellites, satellite_count, requested) =
     (if 2000 \<le> satellite_count then (all_satellites, satellite_count, requested)
      else case load_urls E tle_urls (all_satellites, satellite_count, 0, requested) of
             (all_satellites', satellite_count', successful_loads, requested') \<Rightarrow>
               if 0 < successful_loads then (all_satellites', satellite_count', requested')
               else load_source_sets E sets (all_satellites', satellite_count', requested'))"

text \<open>\<open>_update_category_lists\<close>: each category's list, in the order of the dictionary.\<close>

definition update_category_lists :: "(int \<times> 'sat sat_data) list \<Rightarrow> category \<Rightarrow> int list" where
  "update_category_lists sats c = map fst (filter (\<lambda>(norad_id, d). category d = c) sats)"

definition iss_tle1 :: string where
  "iss_tle1 = ''1 25544U 98067A   23001.00000000  .00002182  00000-0  40768-4 0  9990''"

definition iss_tle2 :: string where
  "iss_tle2 = ''2 25544  51.6461 339.7939 0001220  92.8340 267.3124 15.49309239 00000''"

text \<open>
  \<open>_load_fallback_data\<close>: the one built-in entry; the tracker is left as it was when
  \<open>EarthSatellite\<close> raises.
\<close>

definition load_fallback_data :: "'sat env \<Rightarrow> 'sat tracker \<Rightarrow> 'sat tracker" where
  "load_fallback_data E self =
     (case EarthSatellite E iss_tle1 iss_tle2 ''ISS (ZARYA)'' of
        None \<Rightarrow> self
      | Some iss \<Rightarrow>
          (let sats = [(25544,
                 \<lparr>satellite = iss, name = ''ISS (ZARYA)'', tle_line1 = iss_tle1,
                  tle_line2 = iss_tle2, category = ISS\<rparr>)]
           in self\<lparr>satellites := sats, cat_members := update_category_lists sats\<rparr>))"

text \<open>
  \<open>load_tle_data\<close> for a given list of source sets; \<open>clock\<close> is the value \<open>time.time()\<close>
  returns when the load is stored. The result is the tracker and the URLs requested.
  Nothing between the loops and the end of the function raises, so the handler around
  the whole body is never entered.
\<close>

definition load_tle_data_from :: "'sat env \<Rightarrow> string list list \<Rightarrow> real \<Rightarrow> 'sat tracker
    \<Rightarrow> 'sat tracker \<times> string list" where
  "load_tle_data_from E sets clock self =
     (case load_source_sets E sets ([], 0, []) of
        (all_satellites, satellite_count, requested) \<Rightarrow>
          if all_satellites = [] then (load_fallback_data E self, requested)
          else (self\<lparr>satellites := all_satellites, last_update := Some clock,
                      cat_members := update_category_lists all_satellites\<rparr>, requested))"

definition tle_source_sets :: "string list list" where
  "tle_source_sets =
     [[''https://celestrak.org/NORAD/elements/gp.php?GROUP=active&FORMAT=tle'',
       ''https://celestrak.org/NORAD/elements/gp.php?GROUP=stations&FORMAT=tle'',
       ''https://celestrak.org/NORAD/elements/gp.php?GROUP=weather&FORMAT=tle'',
       ''https://celestrak.org/NORAD/elements/gp.php?GROUP=gps-ops&FORMAT=tle'',
       ''https://celestrak.org/NORAD/elements/gp.php?GROUP=galileo&FORMAT=tle'',
       ''https://celestrak.org/NORAD/elements/gp.php?GROUP=glonass-ops&FORMAT=tle'',
       ''https://celestrak.org/NORAD/elements/gp.php?GROUP=beidou&FORMAT=tle'',
       ''https://celestrak.org/NORAD/elements/gp.php?GROUP=science&FORMAT=tle'',
       ''https://celestrak.org/NORAD/elements/gp.php?GROUP=starlink&FORMAT=tle'',
       ''https://celestrak.org/NORAD/elements/gp.php?GROUP=oneweb&FORMAT=tle'',
       ''https://celestrak.org/NORAD/elements/gp.php?GROUP=iridium-33-debris&FORMAT=tle'',
       ''https://celestrak.org/NORAD/elements/gp.php?GROUP=iridium-next&FORMAT=tle'',
       ''https://celestrak.org/NORAD/elements/gp.php?GROUP=noaa&FORMAT=tle'',
       ''https://celestrak.org/NORAD/elements/gp.php?GROUP=goes&FORMAT=tle'',
       ''https://celestrak.org/NORAD/elements/gp.php?GROUP=resource&FORMAT=tle'',
       ''https://celestrak.org/NORAD/elements/gp.php?GROUP=cubesat&FORMAT=tle'',
       ''https://celestrak.org/NORAD/elements/gp.php?GROUP=amateur&FORMAT=tle'',
       ''https://celestrak.org/NORAD/elements/gp.php?GROUP=x-comm&FORMAT=tle'',
       ''https://celestrak.org/NORAD/elements/gp.php?GROUP=geo&FORMAT=tle'',
       ''https://celestrak.org/NORAD/elements/gp.php?GROUP=intelsat&FORMAT=tle'',
       ''https://celestrak.org/NORAD/elements/gp.php?GROUP=ses&FORMAT=tle'',
       ''https://celestrak.org/NORAD/elements/gp.php?GROUP=orbcomm&FORMAT=tle'',
       ''https://celestrak.org/NORAD/elements/gp.php?GROUP=globalstar&FORMAT=tle'',
       ''https://celestrak.org/NORAD/elements/gp.php?GROUP=military&FORMAT=tle'',
       ''https://celestrak.org/NORAD/elements/gp.php?GROUP=radar&FORMAT=tle''],
      [''https://www.n2yo.com/tle/download.php?catalog=stations'',
       ''https://www.n2yo.com/tle/download.php?catalog=weather'',
       ''https://www.n2yo.com/tle/download.php?catalog=gps''],
      [''https://celestrak.org/NORAD/elements/stations.txt'',
       ''https://celestrak.org/NORAD/elements/weather.txt'',
       ''https://celestrak.org/NORAD/elements/gps.txt'']]"

definition load_tle_data :: "'sat env \<Rightarrow> real \<Rightarrow> 'sat tracker \<Rightarrow> 'sat tracker \<times> string list" where
  "load_tle_data E clock self = load_tle_data_from E tle_source_sets clock self"

text \<open>\<open>__init__\<close>: the empty tracker, then the first load.\<close>

definition new_tracker :: "'sat tracker" where
  "new_tracker = \<lparr>satellites = [], cat_members = (\<lambda>c. []), last_update = None\<rparr>"

definition init :: "'sat env \<Rightarrow> real \<Rightarrow> 'sat tracker \<times> string list" where
  "init E clock = load_tle_data E clock new_tracker"

section \<open>Queries\<close>

text \<open>\<open>_should_update_tle\<close>; \<open>clock\<close> is the value of \<open>time.time()\<close>.\<close>

definition should_update_tle :: "real \<Rightarrow> 'sat tracker \<Rightarrow> bool" where
  "should_update_tle clock self =
     (case last_update self of None \<Rightarrow> True | Some t \<Rightarrow> clock - t > update_interval)"

text \<open>\<open>f > 0\<close> on a float.\<close>

fun float_gt0 :: "pyfloat \<Rightarrow> bool" where
  "float_gt0 (Float x) = (0 < x)"
| "float_gt0 PosInf = True"
| "float_gt0 NegInf = False"
| "float_gt0 NaN = False"

text \<open>
  \<open>a / f\<close> for a finite \<open>a\<close> and a float \<open>f\<close> that is not zero. The quotient of two
  finite values is the exact one (its rounding is not modelled) unless it overflows: a
  double quotient whose exact value reaches \<open>2 ^ 1024 - 2 ^ 970\<close>, half a step above the
  largest finite double, is an infinity.
\<close>

definition float_overflow :: real where
  "float_overflow = 2 ^ 1024 - 2 ^ 970"

fun float_rdiv :: "real \<Rightarrow> pyfloat \<Rightarrow> pyfloat" where
  "float_rdiv a (Float x) =
     (if float_overflow \<le> a / x then PosInf
      else if a / x \<le> - float_overflow then NegInf
      else Float (a / x))"
| "float_rdiv a PosInf = Float 0"
| "float_rdiv a NegInf = Float 0"
| "float_rdiv a NaN = NaN"

text \<open>\<open>1440 / mean_motion if mean_motion > 0 else 0\<close>\<close>

definition orbital_period_of :: "pyfloat \<Rightarrow> pyfloat" where
  "orbital_period_of mean_motion =
     (if float_gt0 mean_motion then float_rdiv 1440 mean_motion else Float 0)"

text \<open>
  \<open>_extract_launch_date\<close>, which is also the block written in line in
  \<open>get_satellite_positions\<close>: the first two characters of the epoch give the year, the
  rest the day of the year; \<open>Unknown\<close> where \<open>int\<close>, \<open>float\<close> or the date arithmetic
  raises.
\<close>

definition extract_launch_date :: "'sat env \<Rightarrow> string \<Rightarrow> string" where
  "extract_launch_date E epoch_str =
     (case (if str_lt (take 2 epoch_str) ''57'' then py_int (''20'' @ take 2 epoch_str)
            else py_int (''19'' @ take 2 epoch_str)) of
        None \<Rightarrow> ''Unknown''
      | Some year \<Rightarrow>
          (case py_float E (drop 2 epoch_str) of
             None \<Rightarrow> ''Unknown''
           | Some day_of_year \<Rightarrow>
               (case year_day_date E year day_of_year of
                  None \<Rightarrow> ''Unknown''
                | Some launch_date \<Rightarrow> launch_date)))"

text \<open>\<open>np.linalg.norm(after - before) * 1000\<close>\<close>

definition velocity_of :: "real \<times> real \<times> real \<Rightarrow> real \<times> real \<times> real \<Rightarrow> real" where
  "velocity_of before after =
     (case before of (x1, y1, z1) \<Rightarrow> case after of (x2, y2, z2) \<Rightarrow>
        sqrt ((x2 - x1) * (x2 - x1) + (y2 - y1) * (y2 - y1) + (z2 - z1) * (z2 - z1)) * 1000)"

text \<open>One element of the list \<open>get_satellite_positions\<close> returns.\<close>

record position = orbit_point +
  norad_id :: int
  pos_name :: string
  velocity :: real
  orbital_period :: pyfloat
  pos_category :: category
  pos_color :: string
  launch_date :: string

text \<open>
  The body of the loop of \<open>get_satellite_positions\<close> for one entry (key and value) of
  the dictionary, its calls in the order of the source: \<open>None\<close> as soon as one raises,
  which the handler of the loop answers by going on with the next entry.
\<close>

definition satellite_position :: "'sat env \<Rightarrow> real \<Rightarrow> int \<times> 'sat sat_data \<Rightarrow> position option" where
  "satellite_position E current_time entry =
     do {
       geocentric \<leftarrow> sat_at E (satellite (snd entry)) current_time;
       sp \<leftarrow> subpoint E geocentric current_time;
       geocentric_before \<leftarrow> sat_at E (satellite (snd entry)) (current_time - 0.5 / 86400);
       geocentric_after \<leftarrow> sat_at E (satellite (snd entry)) (current_time + 0.5 / 86400);
       mean_motion \<leftarrow> py_float E (slice 52 63 (tle_line2 (snd entry)));
       Some \<lparr>latitude = latitude sp, longitude = longitude sp, altitude = altitude sp,
             norad_id = fst entry, pos_name = name (snd entry),
             velocity = velocity_of geocentric_before geocentric_after,
             orbital_period = orbital_period_of mean_motion,
             pos_category = category (snd entry), pos_color = color (category (snd entry)),
             launch_date = extract_launch_date E (slice 18 32 (tle_line1 (snd entry)))\<rparr>
     }"

fun positions_loop :: "'sat env \<Rightarrow> real \<Rightarrow> (int \<times> 'sat sat_data) list \<Rightarrow> position list \<Rightarrow> position list" where
  "positions_loop E current_time [] satellites_data = satellites_data"
| "positions_loop E current_time (entry # rest) satellites_data =
     (case satellite_position E current_time entry of
        None \<Rightarrow> positions_loop E current_time rest satellites_data
      | Some p \<Rightarrow> positions_loop E current_time rest (satellites_data @ [p]))"

text \<open>
  \<open>get_satellite_positions\<close>: \<open>clock\<close> is \<open>time.time()\<close> at the staleness test,
  \<open>clock'\<close> at the end of a reload, \<open>current_time\<close> is \<open>ts.now()\<close>. The result is the
  tracker after the call and the list returned.
\<close>

definition get_satellite_positions :: "'sat env \<Rightarrow> real \<Rightarrow> real \<Rightarrow> real \<Rightarrow> 'sat tracker
    \<Rightarrow> 'sat tracker \<times> position list" where
  "get_satellite_positions E clock clock' current_time self =
     (let self' = (if should_update_tle clock self then fst (load_tle_data E clock' self)
                   else self)
      in (self', positions_loop E current_time (satellites self') []))"

text \<open>The name patterns of \<open>get_satellite_details\<close>.\<close>

definition any_pattern :: "string list \<Rightarrow> string \<Rightarrow> bool" where
  "any_pattern patterns name_lower = list_ex (\<lambda>pattern. py_in pattern name_lower) patterns"

definition get_country_from_satellite :: "string \<Rightarrow> int \<Rightarrow> string" where
  "get_country_from_satellite nm nid =
     (let name_lower = py_lower nm in
      if nid = 25544 then ''International''
      else if any_pattern [''usa'', ''noaa'', ''goes'', ''landsat'', ''aqua'', ''terra''] name_lower
        then ''United States''
      else if any_pattern [''cosmos'', ''glonass'', ''meteor'', ''resurs''] name_lower
        then ''Russia''
      else if any_pattern [''beidou'', ''fengyun'', ''yaogan'', ''tiangong''] name_lower
        then ''China''
      else if any_pattern [''galileo'', ''sentinel'', ''meteosat'', ''eutelsat''] name_lower
        then ''Europe (ESA)''
      else if any_pattern [''himawari'', ''jaxa'', ''mtsat''] name_lower then ''Japan''
      else if any_pattern [''insat'', ''cartosat'', ''resourcesat''] name_lower then ''India''
      else if any_pattern [''starlink'', ''oneweb'', ''iridium''] name_lower then ''Commercial''
      else ''Unknown'')"

definition get_agency_from_satellite :: "string \<Rightarrow> category \<Rightarrow> string" where
  "get_agency_from_satellite nm cat =
     (let name_lower = py_lower nm in
      if py_in ''starlink'' name_lower then ''SpaceX''
      else if py_in ''oneweb'' name_lower then ''OneWeb''
      else if py_in ''iridium'' name_lower then ''Iridium Communications''
      else if any_pattern [''noaa'', ''goes'', ''landsat''] name_lower then ''NASA/NOAA''
      else if py_in ''glonass'' name_lower then ''Roscosmos''
      else if py_in ''galileo'' name_lower then ''ESA''
      else if py_in ''beidou'' name_lower then ''CNSA''
      else if cat = ISS then ''NASA/Roscosmos/ESA/JAXA''
      else if cat = Military then ''Defense Department''
      else ''Various'')"

fun get_satellite_type :: "category \<Rightarrow> string" where
  "get_satellite_type ISS = ''Space Station''"
| "get_satellite_type GPS = ''Navigation''"
| "get_satellite_type GLONASS = ''Navigation''"
| "get_satellite_type Galileo = ''Navigation''"
| "get_satellite_type BeiDou = ''Navigation''"
| "get_satellite_type Weather = ''Weather/Climate''"
| "get_satellite_type Earth_Observation = ''Earth Observation''"
| "get_satellite_type Communication = ''Communication''"
| "get_satellite_type Starlink = ''Internet Constellation''"
| "get_satellite_type OneWeb = ''Internet Constellation''"
| "get_satellite_type Iridium = ''Communication''"
| "get_satellite_type Scientific = ''Scientific Research''"
| "get_satellite_type Space_Telescopes = ''Space Observatory''"
| "get_satellite_type Military = ''Defense/Intelligence''"
| "get_satellite_type CubeSats = ''Small Satellite''"
| "get_satellite_type Amateur_Radio = ''Amateur Radio''"
| "get_satellite_type Technology_Demo = ''Technology Demo''"
| "get_satellite_type Debris_Tracking = ''Debris/Inactive''"
| "get_satellite_type Geostationary = ''Communication/Broadcasting''"
| "get_satellite_type LEO_Constellation = ''Constellation''"
| "get_satellite_type Commercial = ''Commercial''"
| "get_satellite_type Rocket_Bodies = ''Rocket Stage/Debris''"
| "get_satellite_type Other = ''Unknown''"

text \<open>
  The dictionary \<open>get_satellite_details\<close> returns, with its nested dictionaries
  \<open>orbit\<close>, \<open>position\<close>, \<open>technical\<close> and \<open>tle_data\<close>.
\<close>

record orbit_info =
  orbit_altitude :: real
  orbit_inclination :: pyfloat
  orbit_period :: pyfloat
  orbit_velocity :: real
  orbit_type :: string

record position_info =
  position_latitude :: real
  position_longitude :: real
  position_country :: string
  position_visibility :: string

record technical_info =
  technical_norad_id :: int
  technical_launch_date :: string
  technical_type :: string
  technical_agency :: string
  technical_status :: string

record tle_info =
  tle_data_line1 :: string
  tle_data_line2 :: string
  tle_data_epoch :: string

record detail =
  detail_norad_id :: int
  detail_name :: string
  detail_category :: category
  detail_orbit :: orbit_info
  detail_position :: position_info
  detail_technical :: technical_info
  detail_tle_data :: tle_info

text \<open>
  The guarded block of \<open>get_satellite_details\<close>, its calls in the order of the source:
  \<open>None\<close> as soon as one raises, which the handler answers by returning \<open>None\<close>.
\<close>

definition satellite_detail :: "'sat env \<Rightarrow> real \<Rightarrow> int \<Rightarrow> 'sat sat_data \<Rightarrow> detail option" where
  "satellite_detail E current_time nid sat_data =
     do {
       geocentric \<leftarrow> sat_at E (satellite sat_data) current_time;
       sp \<leftarrow> subpoint E geocentric current_time;
       geocentric_before \<leftarrow> sat_at E (satellite sat_data) (current_time - 0.5 / 86400);
       geocentric_after \<leftarrow> sat_at E (satellite sat_data) (current_time + 0.5 / 86400);
       inclination \<leftarrow> py_float E (slice 8 16 (tle_line2 sat_data));
       eccentricity \<leftarrow> py_float E (''0.'' @ slice 26 33 (tle_line2 sat_data));
       arg_perigee \<leftarrow> py_float E (slice 34 42 (tle_line2 sat_data));
       mean_anomaly \<leftarrow> py_float E (slice 43 51 (tle_line2 sat_data));
       mean_motion \<leftarrow> py_float E (slice 52 63 (tle_line2 sat_data));
       Some \<lparr>detail_norad_id = nid, detail_name = name sat_data,
             detail_category = category sat_data,
             detail_orbit =
               \<lparr>orbit_altitude = altitude sp, orbit_inclination = inclination,
                orbit_period = orbital_period_of mean_motion,
                orbit_velocity = velocity_of geocentric_before geocentric_after / 1000,
                orbit_type =
                  (if altitude sp < 2000 then ''LEO (Low Earth Orbit)''
                   else if altitude sp < 35000 then ''MEO (Medium Earth Orbit)''
                   else ''GEO (Geostationary Orbit)'')\<rparr>,
             detail_position =
               \<lparr>position_latitude = latitude sp, position_longitude = longitude sp,
                position_country = get_country_from_satellite (name sat_data) nid,
                position_visibility =
                  (if altitude sp < 1000 then ''Visible'' else ''Telescope Required'')\<rparr>,
             detail_technical =
               \<lparr>technical_norad_id = nid,
                technical_launch_date =
                  extract_launch_date E (slice 18 32 (tle_line1 sat_data)),
                technical_type = get_satellite_type (category sat_data),
                technical_agency =
                  get_agency_from_satellite (name sat_data) (category sat_data),
                technical_status =
                  (if float_gt0 mean_motion then ''Active'' else ''Inactive'')\<rparr>,
             detail_tle_data =
               \<lparr>tle_data_line1 = tle_line1 sat_data, tle_data_line2 = tle_line2 sat_data,
                tle_data_epoch = slice 18 32 (tle_line1 sat_data)\<rparr>\<rparr>
     }"

definition get_satellite_details :: "'sat env \<Rightarrow> real \<Rightarrow> 'sat tracker \<Rightarrow> int \<Rightarrow> detail option" where
  "get_satellite_details E current_time self nid =
     (case map_of (satellites self) nid of
        None \<Rightarrow> None
      | Some sat_data \<Rightarrow> satellite_detail E current_time nid sat_data)"

text \<open>\<open>get_orbital_path\<close>: the sample times, then the loop over them.\<close>

definition num_points :: nat where
  "num_points = 100"

definition time_points :: "real \<Rightarrow> real \<Rightarrow> real list" where
  "time_points current_time hours =
     map (\<lambda>i. current_time + (real i * hours) / (24 * real num_points)) [0..<num_points]"

fun path_loop :: "'sat env \<Rightarrow> 'sat \<Rightarrow> real list \<Rightarrow> orbit_point list \<Rightarrow> orbit_point list" where
  "path_loop E sat [] orbit_points = orbit_points"
| "path_loop E sat (t # ts) orbit_points =
     (case sat_at E sat t of
        None \<Rightarrow> path_loop E sat ts orbit_points
      | Some geocentric \<Rightarrow>
          (case subpoint E geocentric t of
             None \<Rightarrow> path_loop E sat ts orbit_points
           | Some sp \<Rightarrow>
               path_loop E sat ts
                 (orbit_points @
                    [\<lparr>latitude = latitude sp, longitude = longitude sp,
                      altitude = altitude sp\<rparr>])))"

definition get_orbital_path :: "'sat env \<Rightarrow> real \<Rightarrow> 'sat tracker \<Rightarrow> int \<Rightarrow> real \<Rightarrow> orbit_point list" where
  "get_orbital_path E current_time self nid hours =
     (case map_of (satellites self) nid of
        None \<Rightarrow> []
      | Some sat_data \<Rightarrow>
          path_loop E (satellite sat_data) (time_points current_time hours) [])"

text \<open>
  The dictionary of one pass. \<open>rise_time\<close> is there from the start (every dictionary the
  loop builds starts at a rise, so the tests for that key are true); an entry that is
  \<open>None\<close> here is absent from the dictionary, or \<open>None\<close> in it for \<open>rise_azimuth\<close>.
\<close>

record pass_data =
  rise_time :: string
  rise_azimuth :: "real option"
  culmination_time :: "string option"
  max_elevation :: "real option"
  culmination_azimuth :: "real option"
  set_time :: "string option"
  set_azimuth :: "real option"
  duration_minutes :: "real option"

text \<open>
  The loop over the events of \<open>get_next_passes\<close>. \<open>current_pass\<close> is \<open>None\<close> for the
  empty dictionary. Where a call raises, the handler around the loop ends it with the
  passes appended so far.
\<close>

fun passes_loop :: "'sat env \<Rightarrow> 'sat \<Rightarrow> observer \<Rightarrow> (real \<times> int) list
    \<Rightarrow> pass_data option \<Rightarrow> pass_data list \<Rightarrow> pass_data list" where
  "passes_loop E sat obs [] current_pass passes = passes"
| "passes_loop E sat obs ((time_point, event) # rest) current_pass passes =
     (if event = 0 then
        passes_loop E sat obs rest
          (Some \<lparr>rise_time = utc_iso E time_point, rise_azimuth = None,
                 culmination_time = None, max_elevation = None, culmination_azimuth = None,
                 set_time = None, set_azimuth = None, duration_minutes = None\<rparr>)
          passes
      else if event = 1 then
        (case current_pass of
           None \<Rightarrow> passes_loop E sat obs rest current_pass passes
         | Some cp \<Rightarrow>
             (case topocentric_altaz E sat obs time_point of
                None \<Rightarrow> passes
              | Some (alt, az, distance) \<Rightarrow>
                  passes_loop E sat obs rest
                    (Some (cp\<lparr>culmination_time := Some (utc_iso E time_point),
                               max_elevation := Some alt,
                               culmination_azimuth := Some az\<rparr>))
                    passes))
      else if event = 2 then
        (case current_pass of
           None \<Rightarrow> passes_loop E sat obs rest current_pass passes
         | Some cp \<Rightarrow>
             (case fromisoformat E (rise_time cp) of
                None \<Rightarrow> passes
              | Some rise_dt \<Rightarrow>
                 (case topocentric_altaz E sat obs (from_datetime E rise_dt) of
                    None \<Rightarrow> passes
                  | Some (alt_rise, az_rise, distance_rise) \<Rightarrow>
                     (case topocentric_altaz E sat obs time_point of
                        None \<Rightarrow> passes
                      | Some (alt_set, az_set, distance_set) \<Rightarrow>
                         (case fromisoformat E (utc_iso E time_point) of
                            None \<Rightarrow> passes
                          | Some set_dt \<Rightarrow>
                              passes_loop E sat obs rest None
                                (passes @
                                   [cp\<lparr>set_time := Some (utc_iso E time_point),
                                        rise_azimuth := Some az_rise,
                                        set_azimuth := Some az_set,
                                        duration_minutes :=
                                          Some ((set_dt - rise_dt) / 60)\<rparr>]))))))
      else passes_loop E sat obs rest current_pass passes)"

definition get_next_passes :: "'sat env \<Rightarrow> real \<Rightarrow> 'sat tracker \<Rightarrow> int \<Rightarrow> observer \<Rightarrow> real
    \<Rightarrow> pass_data list" where
  "get_next_passes E current_time self nid obs days =
     (case map_of (satellites self) nid of
        None \<Rightarrow> []
      | Some sat_data \<Rightarrow>
          take 3
            (case find_events E (satellite sat_data) obs current_time (current_time + days) of
               None \<Rightarrow> []
             | Some events \<Rightarrow> passes_loop E (satellite sat_data) obs events None []))"

section \<open>Notions used to state the properties\<close>

text \<open>
  The invariant of a catalog: the ids are pairwise different, both stored lines of every
  entry pass the format check of the loader, and there are at most 2000 entries.
\<close>

definition catalog_ok :: "(int \<times> 'sat sat_data) list \<Rightarrow> bool" where
  "catalog_ok sats =
     (distinct (map fst sats)
      \<and> (\<forall>(norad_id, d) \<in> set sats.
            startswith (tle_line1 d) ''1 '' \<and> length (tle_line1 d) = 69
            \<and> startswith (tle_line2 d) ''2 '' \<and> length (tle_line2 d) = 69)
      \<and> length sats \<le> 2000)"

text \<open>
  An endpoint yields a record when its request succeeds and some record of the response
  passes the format check and is accepted by \<open>EarthSatellite\<close> and \<open>int\<close>; a source set
  yields when one of its endpoints does.
\<close>

definition url_yields :: "'sat env \<Rightarrow> string \<Rightarrow> bool" where
  "url_yields E url =
     (case requests_get E url of
        None \<Rightarrow> False
      | Some text \<Rightarrow>
          list_ex (\<lambda>t. tle_record E t \<noteq> None) (triplets (split_nl (py_strip text))))"

definition set_yields :: "'sat env \<Rightarrow> string list \<Rightarrow> bool" where
  "set_yields E tle_urls = list_ex (url_yields E) tle_urls"

text \<open>
  The point below the satellite at one sample time, \<open>None\<close> where the position or the
  point cannot be computed: what one round of the loop of \<open>get_orbital_path\<close> appends.
\<close>

definition orbit_point_at :: "'sat env \<Rightarrow> 'sat \<Rightarrow> real \<Rightarrow> orbit_point option" where
  "orbit_point_at E sat t =
     (case sat_at E sat t of
        None \<Rightarrow> None
      | Some geocentric \<Rightarrow>
          (case subpoint E geocentric t of
             None \<Rightarrow> None
           | Some sp \<Rightarrow>
               Some \<lparr>latitude = latitude sp, longitude = longitude sp, altitude = altitude sp\<rparr>))"

text \<open>
  The calls of the guarded block of \<open>get_satellite_details\<close> all succeed: the position
  now, the point below it, the positions half a second before and after, and the five
  fields of line 2 read as numbers.
\<close>

definition detail_computable :: "'sat env \<Rightarrow> real \<Rightarrow> 'sat sat_data \<Rightarrow> bool" where
  "detail_computable E t d =
     ((case sat_at E (satellite d) t of
         None \<Rightarrow> False
       | Some geocentric \<Rightarrow> subpoint E geocentric t \<noteq> None)
      \<and> sat_at E (satellite d) (t - 0.5 / 86400) \<noteq> None
      \<and> sat_at E (satellite d) (t + 0.5 / 86400) \<noteq> None
      \<and> py_float E (slice 8 16 (tle_line2 d)) \<noteq> None
      \<and> py_float E (''0.'' @ slice 26 33 (tle_line2 d)) \<noteq> None
      \<and> py_float E (slice 34 42 (tle_line2 d)) \<noteq> None
      \<and> py_float E (slice 43 51 (tle_line2 d)) \<noteq> None
      \<and> py_float E (slice 52 63 (tle_line2 d)) \<noteq> None)"

text \<open>
  The calls of the body of the loop of \<open>get_satellite_positions\<close> all succeed for an
  entry: the position now, the point below it, the positions half a second before and
  after, and the mean motion field of line 2 read as a number.
\<close>

definition position_computable :: "'sat env \<Rightarrow> real \<Rightarrow> 'sat sat_data \<Rightarrow> bool" where
  "position_computable E t d =
     ((case sat_at E (satellite d) t of
         None \<Rightarrow> False
       | Some geocentric \<Rightarrow> subpoint E geocentric t \<noteq> None)
      \<and> sat_at E (satellite d) (t - 0.5 / 86400) \<noteq> None
      \<and> sat_at E (satellite d) (t + 0.5 / 86400) \<noteq> None
      \<and> py_float E (slice 52 63 (tle_line2 d)) \<noteq> None)"

text \<open>
  A complete cycle is the triple of the times of a rise, the culmination after it and the
  set after that. \<open>cycle_events\<close> is the run of events the library reports for it, and
  \<open>cycle_pass\<close> the pass it stands for: the angles at the three times and the minutes from
  the rise to the set, both times read back from their ISO strings; \<open>None\<close> where an angle
  or a time cannot be computed.
\<close>

definition cycle_events :: "real \<times> real \<times> real \<Rightarrow> (real \<times> int) list" where
  "cycle_events cyc = (case cyc of (t_rise, t_culm, t_set) \<Rightarrow> [(t_rise, 0), (t_culm, 1), (t_set, 2)])"

definition cycle_pass :: "'sat env \<Rightarrow> 'sat \<Rightarrow> observer \<Rightarrow> real \<times> real \<times> real \<Rightarrow> pass_data option" where
  "cycle_pass E sat obs cyc =
     do {
       culm \<leftarrow> topocentric_altaz E sat obs (fst (snd cyc));
       rise_dt \<leftarrow> fromisoformat E (utc_iso E (fst cyc));
       at_rise \<leftarrow> topocentric_altaz E sat obs (from_datetime E rise_dt);
       at_set \<leftarrow> topocentric_altaz E sat obs (snd (snd cyc));
       set_dt \<leftarrow> fromisoformat E (utc_iso E (snd (snd cyc)));
       Some \<lparr>rise_time = utc_iso E (fst cyc), rise_azimuth = Some (fst (snd at_rise)),
             culmination_time = Some (utc_iso E (fst (snd cyc))),
             max_elevation = Some (fst culm), culmination_azimuth = Some (fst (snd culm)),
             set_time = Some (utc_iso E (snd (snd cyc))),
             set_azimuth = Some (fst (snd at_set)),
             duration_minutes = Some ((set_dt - rise_dt) / 60)\<rparr>
     }"

section \<open>An example environment\<close>

text \<open>
  A small environment on which the definitions can be run. The propagator object is the
  pair of the two element lines. The primary endpoint fails; the backup endpoint answers
  with three records whose lines pass the format check, the third with a mean motion
  field that is not a number.
\<close>

definition example_response :: string where
  "example_response =
     ''ISS (ZARYA)'' @ CHR 0x0A #
     ''1 25544U 98067A   23001.00000000  .00002182  00000-0  40768-4 0  9990'' @ CHR 0x0A #
     ''2 25544  51.6461 339.7939 0001220  92.8340 267.3124 15.49309239 00000'' @ CHR 0x0A #
     ''STARLINK-1007'' @ CHR 0x0A #
     ''1 44713U 19074A   23001.00000000  .00001000  00000-0  10000-4 0  9991'' @ CHR 0x0A #
     ''2 44713  53.0550 100.0000 0001500  90.0000 270.0000 15.06400000 00001'' @ CHR 0x0A #
     ''CORRUPT-1'' @ CHR 0x0A #
     ''1 99999U 20001A   23001.00000000  .00000000  00000-0  00000-0 0  9993'' @ CHR 0x0A #
     ''2 99999  51.6461 339.7939 0001220  92.8340 267.3124 XXXXXXXXXXX 00003''"

definition primary_url :: string where
  "primary_url = ''https://primary.example/tle''"

definition backup_url :: string where
  "backup_url = ''https://backup.example/tle''"

definition third_url :: string where
  "third_url = ''https://third.example/tle''"

text \<open>
  \<open>float\<close> on the strings the examples read; they read no other string that Python
  takes for a number.
\<close>

definition example_float :: "string \<Rightarrow> pyfloat option" where
  "example_float s =
     (if s = ''15.49309239'' then Some (Float 15.49309239)
      else if s = ''15.06400000'' then Some (Float 15.064)
      else if s = ''001.00000000'' then Some (Float 1)
      else if s = '' 51.6461'' then Some (Float 51.6461)
      else if s = ''0.0001220'' then Some (Float 0.000122)
      else if s = '' 92.8340'' then Some (Float 92.834)
      else if s = ''267.3124'' then Some (Float 267.3124)
      else None)"

text \<open>
  Times are Julian dates and a \<open>datetime\<close> is its number of seconds after
  2023-01-01T12:00:00; one pass is found, from 12:14:24 to 12:21:36.
\<close>

definition example_env :: "(string \<times> string) env" where
  "example_env =
     \<lparr>requests_get = (\<lambda>url. if url = backup_url then Some example_response else None),
      EarthSatellite = (\<lambda>line1 line2 nm. Some (line1, line2)),
      sat_at = (\<lambda>sat t. Some (7000, 0, 0)),
      subpoint = (\<lambda>pos t. Some \<lparr>latitude = 0, longitude = 0, altitude = 400\<rparr>),
      py_float = example_float,
      year_day_date = (\<lambda>year d. if year = 2023 \<and> d = Float 1 then Some ''2023-01-01'' else None),
      find_events = (\<lambda>sat obs t0 t1. Some [(t0 + 0.01, 0), (t0 + 0.0125, 1), (t0 + 0.015, 2)]),
      topocentric_altaz = (\<lambda>sat obs t. Some (45, 180, 1000)),
      utc_iso = (\<lambda>t. if t = 2459946.01 then ''2023-01-01T12:14:24Z''
                     else if t = 2459946.0125 then ''2023-01-01T12:18:00Z''
                     else ''2023-01-01T12:21:36Z''),
      fromisoformat = (\<lambda>s. if s = ''2023-01-01T12:14:24Z'' then Some 864
                           else if s = ''2023-01-01T12:21:36Z'' then Some 1296 else None),
      from_datetime = (\<lambda>dt. 2459946 + dt / 86400)\<rparr>"

text \<open>The same environment with a propagator that fails at every time.\<close>

definition failing_env :: "(string \<times> string) env" where
  "failing_env = example_env\<lparr>sat_at := (\<lambda>sat t. None)\<rparr>"

text \<open>The entries the example response gives, and the tracker holding them.\<close>

definition iss_entry :: "(string \<times> string) sat_data" where
  "iss_entry =
     \<lparr>satellite =
        (''1 25544U 98067A   23001.00000000  .00002182  00000-0  40768-4 0  9990'',
         ''2 25544  51.6461 339.7939 0001220  92.8340 267.3124 15.49309239 00000''),
      name = ''ISS (ZARYA)'',
      tle_line1 = ''1 25544U 98067A   23001.00000000  .00002182  00000-0  40768-4 0  9990'',
      tle_line2 = ''2 25544  51.6461 339.7939 0001220  92.8340 267.3124 15.49309239 00000'',
      category = ISS\<rparr>"

definition starlink_entry :: "(string \<times> string) sat_data" where
  "starlink_entry =
     \<lparr>satellite =
        (''1 44713U 19074A   23001.00000000  .00001000  00000-0  10000-4 0  9991'',
         ''2 44713  53.0550 100.0000 0001500  90.0000 270.0000 15.06400000 00001''),
      name = ''STARLINK-1007'',
      tle_line1 = ''1 44713U 19074A   23001.00000000  .00001000  00000-0  10000-4 0  9991'',
      tle_line2 = ''2 44713  53.0550 100.0000 0001500  90.0000 270.0000 15.06400000 00001'',
      category = Starlink\<rparr>"

definition corrupt_entry :: "(string \<times> string) sat_data" where
  "corrupt_entry =
     \<lparr>satellite =
        (''1 99999U 20001A   23001.00000000  .00000000  00000-0  00000-0 0  9993'',
         ''2 99999  51.6461 339.7939 0001220  92.8340 267.3124 XXXXXXXXXXX 00003''),
      name = ''CORRUPT-1'',
      tle_line1 = ''1 99999U 20001A   23001.00000000  .00000000  00000-0  00000-0 0  9993'',
      tle_line2 = ''2 99999  51.6461 339.7939 0001220  92.8340 267.3124 XXXXXXXXXXX 00003'',
      category = Other\<rparr>"

definition example_catalog :: "(int \<times> (string \<times> string) sat_data) list" where
  "example_catalog = [(25544, iss_entry), (44713, starlink_entry), (99999, corrupt_entry)]"

definition example_tracker :: "(string \<times> string) tracker" where
  "example_tracker =
     \<lparr>satellites = example_catalog, cat_members = update_category_lists example_catalog,
      last_update = Some 1000\<rparr>"

text \<open>The records expected for the two entries of the example that can be computed.\<close>

definition iss_position :: position where
  "iss_position =
     \<lparr>latitude = 0, longitude = 0, altitude = 400, norad_id = 25544,
      pos_name = ''ISS (ZARYA)'', velocity = 0, orbital_period = Float (1440 / 15.49309239),
      pos_category = ISS, pos_color = ''#FF6B6B'', launch_date = ''2023-01-01''\<rparr>"

definition starlink_position :: position where
  "starlink_position =
     \<lparr>latitude = 0, longitude = 0, altitude = 400, norad_id = 44713,
      pos_name = ''STARLINK-1007'', velocity = 0, orbital_period = Float (1440 / 15.064),
      pos_category = Starlink, pos_color = ''#E9C46A'', launch_date = ''2023-01-01''\<rparr>"

text \<open>The example environment with no event in the window.\<close>

definition quiet_env :: "(string \<times> string) env" where
  "quiet_env = example_env\<lparr>find_events := (\<lambda>sat obs t0 t1. Some [])\<rparr>"

definition origin :: observer where
  "origin = \<lparr>observer_lat = 0, observer_lon = 0, observer_alt = 0\<rparr>"

text \<open>
  The example environment with a window that opens in the middle of a pass and closes in
  the middle of another: a culmination and a set with no rise before them, then the
  complete pass, then a rise with no set.
\<close>

definition window_env :: "(string \<times> string) env" where
  "window_env =
     example_env\<lparr>find_events :=
       (\<lambda>sat obs t0 t1.
          Some [(t0 + 0.001, 1), (t0 + 0.002, 2),
                (t0 + 0.01, 0), (t0 + 0.0125, 1), (t0 + 0.015, 2),
                (t0 + 0.5, 0)])\<rparr>"

text \<open>
  The example environment with a pass of a third of a second: rise, culmination and set
  all lie in the second 12:14:24, which is what \<open>utc_iso\<close> prints for each of them.
\<close>

definition short_pass_env :: "(string \<times> string) env" where
  "short_pass_env =
     example_env\<lparr>find_events :=
       (\<lambda>sat obs t0 t1. Some [(t0 + 0.01, 0), (t0 + 0.010002, 1), (t0 + 0.010004, 2)]),
       utc_iso := (\<lambda>t. ''2023-01-01T12:14:24Z'')\<rparr>"

text \<open>The complete pass of the example, and the pass of a third of a second.\<close>

definition example_pass :: pass_data where
  "example_pass =
     \<lparr>rise_time = ''2023-01-01T12:14:24Z'', rise_azimuth = Some 180,
      culmination_time = Some ''2023-01-01T12:18:00Z'', max_elevation = Some 45,
      culmination_azimuth = Some 180, set_time = Some ''2023-01-01T12:21:36Z'',
      set_azimuth = Some 180, duration_minutes = Some ((1296 - 864) / 60)\<rparr>"

definition short_pass :: pass_data where
  "short_pass =
     \<lparr>rise_time = ''2023-01-01T12:14:24Z'', rise_azimuth = Some 180,
      culmination_time = Some ''2023-01-01T12:14:24Z'', max_elevation = Some 45,
      culmination_azimuth = Some 180, set_time = Some ''2023-01-01T12:14:24Z'',
      set_azimuth = Some 180, duration_minutes = Some 0\<rparr>"

section \<open>Facts about the string functions\<close>

lemma py_strip_id:
  "s \<noteq> [] \<Longrightarrow> \<not> py_isspace (hd s) \<Longrightarrow> \<not> py_isspace (last s) \<Longrightarrow> py_strip s = s"
proof -
  assume ne: "s \<noteq> []" and h: "\<not> py_isspace (hd s)" and l: "\<not> py_isspace (last s)"
  from ne h have a: "dropWhile py_isspace s = s" by (cases s) simp_all
  from ne l have "\<not> py_isspace (hd (rev s))" by (simp add: hd_rev)
  with ne have "dropWhile py_isspace (rev s) = rev s" by (cases "rev s") simp_all
  with a show ?thesis by (simp add: py_strip_def)
qed

lemma split_nl_nonempty: "split_nl s \<noteq> []"
  by (cases s) simp_all

lemma split_nl_step:
  "split_nl (c # cs) =
     (case split_nl cs of
        [] \<Rightarrow> [[c]]
      | l # ls \<Rightarrow> if c = CHR 0x0A then [] # l # ls else (c # l) # ls)"
  using split_nl_nonempty [of cs] by (cases "split_nl cs") simp_all

text \<open>
  \<open>triplets\<close> in terms of the indices of the source: there are as many records as
  \<open>range(0, len(lines) - 2, 3)\<close> has elements, and record \<open>k\<close> is made of the lines
  \<open>3 * k\<close>, \<open>3 * k + 1\<close> and \<open>3 * k + 2\<close>.
\<close>

lemma length_triplets: "length (triplets ls) = length ls div 3"
  by (induction ls rule: triplets.induct) simp_all

lemma nth_triplets:
  "k < length ls div 3 \<Longrightarrow> triplets ls ! k = (ls ! (3 * k), ls ! (3 * k + 1), ls ! (3 * k + 2))"
proof (induction ls arbitrary: k rule: triplets.induct)
  case (1 a b c rest)
  show ?case
  proof (cases k)
    case 0
    then show ?thesis by simp
  next
    case (Suc j)
    with "1.prems" have "j < length rest div 3" by simp
    from "1.IH" [OF this] Suc show ?thesis
      by (simp add: numeral_3_eq_3)
  qed
qed simp_all

section \<open>The categorizer\<close>

lemma categorize_satellite_table:
  "categorize_satellite nm i = first_match rule_table (py_lower nm) i"
  by (simp add: categorize_satellite_def rule_table_def any_of_def Let_def)

lemma categorize_iss: "categorize_satellite ''ISS (ZARYA)'' 25544 = ISS"
  by (simp add: categorize_satellite_def)

lemma py_lower_starlink: "py_lower ''STARLINK-1007'' = ''starlink-1007''"
  by (simp add: py_lower_def lower_char_def Let_def char_of_def bit_Suc_0_iff)

lemma py_lower_unknownsat: "py_lower ''UNKNOWNSAT-1'' = ''unknownsat-1''"
  by (simp add: py_lower_def lower_char_def Let_def char_of_def bit_Suc_0_iff)

lemma categorize_starlink: "categorize_satellite ''STARLINK-1007'' 44713 = Starlink"
  unfolding categorize_satellite_def py_lower_starlink by (simp add: Let_def)

lemma categorize_unknownsat: "categorize_satellite ''UNKNOWNSAT-1'' 99999 = Other"
  unfolding categorize_satellite_def py_lower_unknownsat by (simp add: Let_def)

lemma categorize_same_lower:
  "py_lower nm = py_lower nm' \<Longrightarrow> categorize_satellite nm i = categorize_satellite nm' i"
  by (simp add: categorize_satellite_def)

text \<open>
  C4. The categorizer is a function of the name and the catalog id alone; it is the
  first-match evaluation of the ordered rule table on the lower-cased name, so two names
  that differ only in case get the same category; and on the three pinned inputs it gives
  ISS, Starlink and Other.
\<close>

theorem categorizer_first_match_wins:
  "categorize_satellite nm i = first_match rule_table (py_lower nm) i
   \<and> (py_lower nm = py_lower nm' \<longrightarrow>
        categorize_satellite nm i = categorize_satellite nm' i)
   \<and> categorize_satellite ''ISS (ZARYA)'' 25544 = ISS
   \<and> categorize_satellite ''STARLINK-1007'' 44713 = Starlink
   \<and> categorize_satellite ''UNKNOWNSAT-1'' 99999 = Other"
  using categorize_satellite_table categorize_same_lower categorize_iss
    categorize_starlink categorize_unknownsat
  by blast

lemma py_lower_mixed_case: "py_lower ''Starlink-1007'' = py_lower ''STARLINK-1007''"
  by (simp add: py_lower_def lower_char_def Let_def char_of_def bit_Suc_0_iff)

theorem categorizer_first_match_wins_witness:
  "py_lower ''Starlink-1007'' = py_lower ''STARLINK-1007''
   \<and> categorize_satellite ''Starlink-1007'' 44713 = Starlink"
proof -
  have same: "py_lower ''Starlink-1007'' = py_lower ''STARLINK-1007''"
    by (rule py_lower_mixed_case)
  have "categorize_satellite ''Starlink-1007'' 44713 = categorize_satellite ''STARLINK-1007'' 44713"
    and "categorize_satellite ''STARLINK-1007'' 44713 = Starlink"
    using categorizer_first_match_wins [of "''Starlink-1007''" 44713 "''STARLINK-1007''"] same
    by blast+
  with same show ?thesis by simp
qed

section \<open>Ingestion: the invariant of the catalog\<close>

lemma tle_record_lines:
  "tle_record E t = Some (i, d) \<Longrightarrow>
     startswith (tle_line1 d) ''1 '' \<and> length (tle_line1 d) = 69
     \<and> startswith (tle_line2 d) ''2 '' \<and> length (tle_line2 d) = 69"
  by (auto simp: tle_record_def Let_def split: prod.splits if_splits option.splits)

lemma catalog_ok_snoc:
  "catalog_ok sats \<Longrightarrow> length sats < 2000 \<Longrightarrow> map_of sats i = None \<Longrightarrow>
   tle_record E t = Some (i, d) \<Longrightarrow> catalog_ok (sats @ [(i, d)])"
  using tle_record_lines [of E t i d]
  by (auto simp: catalog_ok_def map_of_eq_None_iff)

lemma parse_tle_inv:
  "parse_tle E ts (sats, n, un) = (sats', n', un') \<Longrightarrow> catalog_ok sats \<Longrightarrow> n = length sats \<Longrightarrow>
   catalog_ok sats' \<and> n' = length sats'"
proof (induction ts arbitrary: sats n un)
  case Nil
  then show ?case by auto
next
  case (Cons t ts)
  show ?case
  proof (cases "2000 \<le> n \<or> 2000 \<le> un")
    case True
    with Cons.prems show ?thesis by auto
  next
    case False
    note small = this
    show ?thesis
    proof (cases "tle_record E t")
      case None
      with small Cons.prems have "parse_tle E ts (sats, n, un) = (sats', n', un')" by simp
      from Cons.IH [OF this Cons.prems(2,3)] show ?thesis .
    next
      case (Some r)
      obtain i d where r: "r = (i, d)" by (cases r)
      show ?thesis
      proof (cases "map_of sats i = None")
        case True
        with small Some r Cons.prems
        have step: "parse_tle E ts (sats @ [(i, d)], Suc n, Suc un) = (sats', n', un')" by simp
        have ok: "catalog_ok (sats @ [(i, d)])"
          using catalog_ok_snoc [OF Cons.prems(2) _ True] Some r small Cons.prems(3) by simp
        from Cons.IH [OF step ok] Cons.prems(3) show ?thesis by simp
      next
        case False
        with small Some r Cons.prems
        have "parse_tle E ts (sats, n, un) = (sats', n', un')" by simp
        from Cons.IH [OF this Cons.prems(2,3)] show ?thesis .
      qed
    qed
  qed
qed

lemma load_urls_inv:
  "load_urls E urls (sats, n, s, r) = (sats', n', s', r') \<Longrightarrow> catalog_ok sats \<Longrightarrow> n = length sats \<Longrightarrow>
   catalog_ok sats' \<and> n' = length sats'"
proof (induction urls arbitrary: sats n s r)
  case Nil
  then show ?case by auto
next
  case (Cons url urls)
  show ?case
  proof (cases "2000 \<le> n")
    case True
    with Cons.prems show ?thesis by auto
  next
    case False
    show ?thesis
    proof (cases "requests_get E url")
      case None
      with False Cons.prems have "load_urls E urls (sats, n, s, r @ [url]) = (sats', n', s', r')"
        by simp
      from Cons.IH [OF this Cons.prems(2,3)] show ?thesis .
    next
      case (Some resp)
      obtain a b c where p: "parse_tle E (triplets (split_nl (py_strip resp))) (sats, n, 0) = (a, b, c)"
        by (cases "parse_tle E (triplets (split_nl (py_strip resp))) (sats, n, 0)")
      from parse_tle_inv [OF p Cons.prems(2,3)] have ok: "catalog_ok a" "b = length a" by simp_all
      from False Some p Cons.prems
      have "load_urls E urls (a, b, if 0 < c then Suc s else s, r @ [url]) = (sats', n', s', r')"
        by simp
      from Cons.IH [OF this ok] show ?thesis .
    qed
  qed
qed

lemma load_source_sets_inv:
  "load_source_sets E sets (sats, n, r) = (sats', n', r') \<Longrightarrow> catalog_ok sats \<Longrightarrow> n = length sats \<Longrightarrow>
   catalog_ok sats' \<and> n' = length sats'"
proof (induction sets arbitrary: sats n r)
  case Nil
  then show ?case by auto
next
  case (Cons g sets)
  show ?case
  proof (cases "2000 \<le> n")
    case True
    with Cons.prems show ?thesis by auto
  next
    case False
    obtain a b c e where p: "load_urls E g (sats, n, 0, r) = (a, b, c, e)"
      by (cases "load_urls E g (sats, n, 0, r)")
    from load_urls_inv [OF p Cons.prems(2,3)] have ok: "catalog_ok a" "b = length a" by simp_all
    show ?thesis
    proof (cases "0 < c")
      case True
      with False p Cons.prems ok show ?thesis by auto
    next
      case c0: False
      with False p Cons.prems have "load_source_sets E sets (a, b, e) = (sats', n', r')" by simp
      from Cons.IH [OF this ok] show ?thesis .
    qed
  qed
qed

lemma map_of_snoc_keep: "map_of sats i = Some d \<Longrightarrow> map_of (sats @ [e]) i = Some d"
  by (cases e) (simp add: map_add_Some_iff)

lemma parse_tle_keeps:
  "map_of sats i = Some d \<Longrightarrow> map_of (fst (parse_tle E ts (sats, n, un))) i = Some d"
proof (induction ts arbitrary: sats n un)
  case Nil
  then show ?case by simp
next
  case (Cons t ts)
  show ?case
  proof (cases "tle_record E t")
    case None
    with Cons show ?thesis by simp
  next
    case (Some e)
    obtain j d' where e: "e = (j, d')" by (cases e)
    from Cons.prems have "map_of (sats @ [(j, d')]) i = Some d" by (rule map_of_snoc_keep)
    from Cons.IH [OF this] Cons.IH [OF Cons.prems] Cons.prems Some e show ?thesis by simp
  qed
qed

lemma load_urls_keeps:
  "map_of sats i = Some d \<Longrightarrow> map_of (fst (load_urls E urls (sats, n, s, r))) i = Some d"
proof (induction urls arbitrary: sats n s r)
  case Nil
  then show ?case by simp
next
  case (Cons url urls)
  show ?case
  proof (cases "requests_get E url")
    case None
    with Cons show ?thesis by simp
  next
    case (Some resp)
    obtain a b c where p: "parse_tle E (triplets (split_nl (py_strip resp))) (sats, n, 0) = (a, b, c)"
      by (cases "parse_tle E (triplets (split_nl (py_strip resp))) (sats, n, 0)")
    from parse_tle_keeps [OF Cons.prems, of E "triplets (split_nl (py_strip resp))" n 0] p
    have "map_of a i = Some d" by simp
    from Cons.IH [OF this] Cons.prems Some p show ?thesis by simp
  qed
qed

lemma load_source_sets_keeps:
  "map_of sats i = Some d \<Longrightarrow> map_of (fst (load_source_sets E sets (sats, n, r))) i = Some d"
proof (induction sets arbitrary: sats n r)
  case Nil
  then show ?case by simp
next
  case (Cons g sets)
  obtain a b c e where p: "load_urls E g (sats, n, 0, r) = (a, b, c, e)"
    by (cases "load_urls E g (sats, n, 0, r)")
  from load_urls_keeps [OF Cons.prems, of E g n 0 r] p have a: "map_of a i = Some d" by simp
  show ?case
  proof (cases "2000 \<le> n")
    case True
    with Cons.prems show ?thesis by simp
  next
    case False
    show ?thesis
    proof (cases "0 < c")
      case True
      with False p a show ?thesis by simp
    next
      case c0: False
      with False p Cons.IH [OF a, of b e] show ?thesis by simp
    qed
  qed
qed

lemma catalog_ok_Nil: "catalog_ok []"
  by (simp add: catalog_ok_def)

lemma iss_lines_valid:
  "startswith iss_tle1 ''1 '' \<and> length iss_tle1 = 69 \<and> startswith iss_tle2 ''2 '' \<and> length iss_tle2 = 69"
  by (simp add: iss_tle1_def iss_tle2_def)

lemma load_source_sets_ok: "catalog_ok (fst (load_source_sets E sets ([], 0, [])))"
proof -
  obtain a b c where p: "load_source_sets E sets ([], 0, []) = (a, b, c)"
    by (cases "load_source_sets E sets ([], 0, [])")
  from load_source_sets_inv [OF p catalog_ok_Nil] show ?thesis using p by simp
qed

lemma load_fallback_data_ok:
  "catalog_ok (satellites self) \<Longrightarrow> catalog_ok (satellites (load_fallback_data E self))"
  using iss_lines_valid
  by (simp add: load_fallback_data_def catalog_ok_def Let_def split: option.splits)

lemma load_tle_data_from_ok:
  "catalog_ok (satellites self) \<Longrightarrow> catalog_ok (satellites (fst (load_tle_data_from E sets clock self)))"
proof -
  assume ok: "catalog_ok (satellites self)"
  obtain a b c where p: "load_source_sets E sets ([], 0, []) = (a, b, c)"
    by (cases "load_source_sets E sets ([], 0, [])")
  from load_source_sets_ok [of E sets] p have "catalog_ok a" by simp
  with p load_fallback_data_ok [OF ok, of E] show ?thesis
    by (simp add: load_tle_data_from_def)
qed

section \<open>Ingestion: the source sets in their order\<close>

lemma parse_tle_none:
  "\<not> list_ex (\<lambda>t. tle_record E t \<noteq> None) ts \<Longrightarrow> parse_tle E ts st = st"
proof (induction ts)
  case Nil
  then show ?case by simp
next
  case (Cons t ts)
  obtain a n un where st: "st = (a, n, un)" by (cases st)
  from Cons.prems have none: "tle_record E t = None"
    by (cases "tle_record E t") auto
  from Cons.prems have "\<not> list_ex (\<lambda>t. tle_record E t \<noteq> None) ts" by simp
  from Cons.IH [OF this] none show ?case by (simp add: st)
qed



lemma load_urls_no_yield:
  "\<not> set_yields E g \<Longrightarrow> n < 2000 \<Longrightarrow> load_urls E g (sats, n, s, r) = (sats, n, s, r @ g)"
proof (induction g arbitrary: r)
  case Nil
  then show ?case by simp
next
  case (Cons url g)
  from Cons.prems(1) have rest: "\<not> set_yields E g" and here: "\<not> url_yields E url"
    by (simp_all add: set_yields_def)
  show ?case
  proof (cases "requests_get E url")
    case None
    with Cons.IH [OF rest Cons.prems(2), of "r @ [url]"] Cons.prems(2) show ?thesis by simp
  next
    case (Some resp)
    with here have "\<not> list_ex (\<lambda>t. tle_record E t \<noteq> None) (triplets (split_nl (py_strip resp)))"
      by (simp add: url_yields_def)
    from parse_tle_none [OF this]
    have "parse_tle E (triplets (split_nl (py_strip resp))) (sats, n, 0) = (sats, n, 0)" .
    with Some Cons.IH [OF rest Cons.prems(2), of "r @ [url]"] Cons.prems(2) show ?thesis by simp
  qed
qed










lemma load_source_sets_skip:
  "\<forall>g \<in> set pre. \<not> set_yields E g \<Longrightarrow>
   load_source_sets E (pre @ rest) ([], 0, r) = load_source_sets E rest ([], 0, r @ concat pre)"
proof (induction pre arbitrary: r)
  case Nil
  then show ?case by simp
next
  case (Cons g pre)
  from Cons.prems have g: "\<not> set_yields E g" and pre: "\<forall>g \<in> set pre. \<not> set_yields E g"
    by simp_all
  from load_urls_no_yield [OF g, of 0 "[]" 0 r]
  have "load_urls E g ([], 0, 0, r) = ([], 0, 0, r @ g)" by simp
  with Cons.IH [OF pre, of "r @ g"] show ?case by simp
qed

section \<open>The example environment evaluated\<close>

lemma example_strip: "py_strip example_response = example_response"
  by (rule py_strip_id) (simp_all add: example_response_def py_isspace_def)

lemma example_triplets: "triplets (split_nl (py_strip example_response)) =
  [(''ISS (ZARYA)'',
    ''1 25544U 98067A   23001.00000000  .00002182  00000-0  40768-4 0  9990'',
    ''2 25544  51.6461 339.7939 0001220  92.8340 267.3124 15.49309239 00000''),
   (''STARLINK-1007'',
    ''1 44713U 19074A   23001.00000000  .00001000  00000-0  10000-4 0  9991'',
    ''2 44713  53.0550 100.0000 0001500  90.0000 270.0000 15.06400000 00001''),
   (''CORRUPT-1'',
    ''1 99999U 20001A   23001.00000000  .00000000  00000-0  00000-0 0  9993'',
    ''2 99999  51.6461 339.7939 0001220  92.8340 267.3124 XXXXXXXXXXX 00003'')]"
  unfolding example_strip unfolding example_response_def
  by (simp add: split_nl_step del: split_nl.simps(2))

lemma py_lower_corrupt: "py_lower ''CORRUPT-1'' = ''corrupt-1''"
  by (simp add: py_lower_def lower_char_def Let_def char_of_def bit_Suc_0_iff)

lemma categorize_corrupt: "categorize_satellite ''CORRUPT-1'' 99999 = Other"
  unfolding categorize_satellite_def py_lower_corrupt by (simp add: Let_def)

lemma tle_record_iss:
  "tle_record example_env (''ISS (ZARYA)'',
    ''1 25544U 98067A   23001.00000000  .00002182  00000-0  40768-4 0  9990'',
    ''2 25544  51.6461 339.7939 0001220  92.8340 267.3124 15.49309239 00000'')
   = Some (25544, iss_entry)"
  by (simp add: tle_record_def py_strip_id py_isspace_def example_env_def iss_entry_def
      py_int_def slice_def int_space_def is_digit_def digit_val_def categorize_iss)
     (simp add: Let_def)

lemma tle_record_starlink:
  "tle_record example_env (''STARLINK-1007'',
    ''1 44713U 19074A   23001.00000000  .00001000  00000-0  10000-4 0  9991'',
    ''2 44713  53.0550 100.0000 0001500  90.0000 270.0000 15.06400000 00001'')
   = Some (44713, starlink_entry)"
  by (simp add: tle_record_def py_strip_id py_isspace_def example_env_def starlink_entry_def
      py_int_def slice_def int_space_def is_digit_def digit_val_def categorize_starlink)
     (simp add: Let_def)

lemma tle_record_corrupt:
  "tle_record example_env (''CORRUPT-1'',
    ''1 99999U 20001A   23001.00000000  .00000000  00000-0  00000-0 0  9993'',
    ''2 99999  51.6461 339.7939 0001220  92.8340 267.3124 XXXXXXXXXXX 00003'')
   = Some (99999, corrupt_entry)"
  by (simp add: tle_record_def py_strip_id py_isspace_def example_env_def corrupt_entry_def
      py_int_def slice_def int_space_def is_digit_def digit_val_def categorize_corrupt)
     (simp add: Let_def)

lemma example_requests:
  "requests_get example_env primary_url = None"
  "requests_get example_env backup_url = Some example_response"
  "requests_get example_env third_url = None"
  by (simp_all add: example_env_def primary_url_def backup_url_def third_url_def)

lemma example_parse:
  "parse_tle example_env (triplets (split_nl (py_strip example_response))) ([], 0, 0)
   = (example_catalog, 3, 3)"
  unfolding example_triplets
  by (simp add: tle_record_iss tle_record_starlink tle_record_corrupt example_catalog_def
      numeral_3_eq_3)

lemma example_load_backup:
  "load_urls example_env [backup_url] ([], 0, 0, r) = (example_catalog, 3, 1, r @ [backup_url])"
  by (simp add: example_requests example_parse)

lemma example_load:
  "load_tle_data_from example_env [[primary_url], [backup_url], [third_url]] 1000 new_tracker
   = (example_tracker, [primary_url, backup_url])"
  by (simp add: load_tle_data_from_def example_requests example_parse example_tracker_def
      new_tracker_def example_catalog_def)

section \<open>Ingestion: priority of the sources, fallback and invariant\<close>


lemma example_no_yield: "\<not> set_yields example_env [primary_url]"
  by (simp add: set_yields_def url_yields_def example_requests)




lemma load_source_sets_none:
  "\<forall>g \<in> set sets. \<not> set_yields E g \<Longrightarrow>
   load_source_sets E sets ([], 0, []) = ([], 0, concat sets)"
  using load_source_sets_skip [of sets E "[]" "[]"] by simp

lemma load_tle_data_from_nonempty:
  "EarthSatellite E iss_tle1 iss_tle2 ''ISS (ZARYA)'' = Some iss \<Longrightarrow>
   satellites (fst (load_tle_data_from E sets clock self)) \<noteq> []"
  by (cases "load_source_sets E sets ([], 0, [])")
     (simp add: load_tle_data_from_def load_fallback_data_def Let_def)

text \<open>
  C2. When constructing the built-in entry succeeds (its lines are fixed and pass the
  format check), the catalog is not empty after a load, whatever the endpoints answer;
  and when no source set yields a record the catalog is exactly the one built-in entry,
  id 25544. The load returns a tracker in every case: the failures of the endpoints are
  branches inside it.
\<close>

theorem fallback_when_no_source_yields:
  assumes iss: "EarthSatellite E iss_tle1 iss_tle2 ''ISS (ZARYA)'' = Some iss"
  shows "satellites (fst (load_tle_data_from E sets clock self)) \<noteq> []
     \<and> satellites (fst (load_tle_data E clock self)) \<noteq> []
     \<and> ((\<forall>g \<in> set sets. \<not> set_yields E g) \<longrightarrow>
          satellites (fst (load_tle_data_from E sets clock self))
            = [(25544, \<lparr>satellite = iss, name = ''ISS (ZARYA)'', tle_line1 = iss_tle1,
                        tle_line2 = iss_tle2, category = ISS\<rparr>)])
     \<and> startswith iss_tle1 ''1 '' \<and> length iss_tle1 = 69
     \<and> startswith iss_tle2 ''2 '' \<and> length iss_tle2 = 69"
proof -
  have "(\<forall>g \<in> set sets. \<not> set_yields E g) \<longrightarrow>
          satellites (fst (load_tle_data_from E sets clock self))
            = [(25544, \<lparr>satellite = iss, name = ''ISS (ZARYA)'', tle_line1 = iss_tle1,
                        tle_line2 = iss_tle2, category = ISS\<rparr>)]"
  proof
    assume "\<forall>g \<in> set sets. \<not> set_yields E g"
    from load_source_sets_none [OF this] iss
    show "satellites (fst (load_tle_data_from E sets clock self))
            = [(25544, \<lparr>satellite = iss, name = ''ISS (ZARYA)'', tle_line1 = iss_tle1,
                        tle_line2 = iss_tle2, category = ISS\<rparr>)]"
      by (simp add: load_tle_data_from_def load_fallback_data_def Let_def)
  qed
  with load_tle_data_from_nonempty [OF iss] iss_lines_valid show ?thesis
    by (simp add: load_tle_data_def)
qed

lemma example_iss: "EarthSatellite example_env iss_tle1 iss_tle2 ''ISS (ZARYA)'' = Some (iss_tle1, iss_tle2)"
  by (simp add: example_env_def)

theorem fallback_when_no_source_yields_witness:
  "EarthSatellite example_env iss_tle1 iss_tle2 ''ISS (ZARYA)'' = Some (iss_tle1, iss_tle2)
   \<and> \<not> set_yields example_env [primary_url]
   \<and> satellites (fst (load_tle_data_from example_env [[primary_url]] 1000 new_tracker))
       = [(25544, \<lparr>satellite = (iss_tle1, iss_tle2), name = ''ISS (ZARYA)'',
                   tle_line1 = iss_tle1, tle_line2 = iss_tle2, category = ISS\<rparr>)]
   \<and> satellites (fst (load_tle_data example_env 1000 new_tracker)) \<noteq> []"
proof -
  have none: "\<forall>g \<in> set [[primary_url]]. \<not> set_yields example_env g"
    using example_no_yield by simp
  from fallback_when_no_source_yields [OF example_iss, of "[[primary_url]]" 1000 new_tracker] none
    example_iss example_no_yield
  show ?thesis by blast
qed

text \<open>
  C3. A load keeps the invariant of the catalog: the ids are pairwise different, every
  stored line 1 starts with \<open>1\<close> and a blank and has 69 characters, every stored line 2
  starts with \<open>2\<close> and a blank and has 69 characters, and there are at most 2000 entries;
  the catalog the loops build has it from the empty start. An entry once accepted for an
  id stays as it is to the end of the loops: a later record with that id is dropped.
\<close>

theorem ingestion_catalog_invariant:
  "catalog_ok (satellites self) \<Longrightarrow>
     catalog_ok (satellites (fst (load_tle_data_from E sets clock self)))
     \<and> catalog_ok (fst (load_source_sets E sets ([], 0, [])))
     \<and> (map_of sats i = Some d \<longrightarrow>
          map_of (fst (load_source_sets E sets (sats, n, r))) i = Some d)"
  using load_tle_data_from_ok [of self E sets clock] load_source_sets_ok [of E sets]
    load_source_sets_keeps [of sats i d E sets n r]
  by blast

lemma example_first_seen:
  "fst (load_source_sets example_env [[backup_url]] ([(25544, starlink_entry)], 1, []))
     = [(25544, starlink_entry), (44713, starlink_entry), (99999, corrupt_entry)]"
  unfolding load_source_sets.simps load_urls.simps
  by (simp add: example_requests example_triplets tle_record_iss tle_record_starlink
      tle_record_corrupt)

theorem ingestion_catalog_invariant_witness:
  "catalog_ok (satellites (new_tracker :: (string \<times> string) tracker))
   \<and> map_of [(25544, starlink_entry)] 25544 = Some starlink_entry
   \<and> catalog_ok (satellites (fst (load_tle_data_from example_env
         [[primary_url], [backup_url], [third_url]] 1000 new_tracker)))
   \<and> map_of (fst (load_source_sets example_env [[backup_url]] ([(25544, starlink_entry)], 1, [])))
        25544 = Some starlink_entry
   \<and> satellites (fst (load_tle_data_from example_env
         [[primary_url], [backup_url], [third_url]] 1000 new_tracker)) = example_catalog"
proof -
  have ok: "catalog_ok (satellites (new_tracker :: (string \<times> string) tracker))"
    by (simp add: new_tracker_def catalog_ok_Nil)
  have key: "map_of [(25544 :: int, starlink_entry)] 25544 = Some starlink_entry" by simp
  from ingestion_catalog_invariant [OF ok, of example_env
      "[[primary_url], [backup_url], [third_url]]" 1000 "[(25544, starlink_entry)]" 25544
      starlink_entry 1 "[]"]
  have a: "catalog_ok (satellites (fst (load_tle_data_from example_env
         [[primary_url], [backup_url], [third_url]] 1000 new_tracker)))" by blast
  from ingestion_catalog_invariant [OF ok, of example_env "[[backup_url]]" 1000
      "[(25544, starlink_entry)]" 25544 starlink_entry 1 "[]"] key
  have b: "map_of (fst (load_source_sets example_env [[backup_url]] ([(25544, starlink_entry)], 1, [])))
        25544 = Some starlink_entry" by blast
  from ok key a b example_load show ?thesis by (simp add: example_tracker_def)
qed

section \<open>The position list\<close>

lemma positions_loop_map_filter:
  "positions_loop E t es acc = acc @ List.map_filter (satellite_position E t) es"
  by (induction es arbitrary: acc) (simp_all add: List.map_filter_simps split: option.splits)

lemma satellite_position_id: "satellite_position E t e = Some p \<Longrightarrow> norad_id p = fst e"
  by (auto simp: satellite_position_def split: Option.bind_splits)

lemma satellite_position_mean_motion:
  "satellite_position E t e = Some p \<Longrightarrow>
   \<exists>mean_motion. py_float E (slice 52 63 (tle_line2 (snd e))) = Some mean_motion
      \<and> orbital_period p = orbital_period_of mean_motion
      \<and> launch_date p = extract_launch_date E (slice 18 32 (tle_line1 (snd e)))"
  by (auto simp: satellite_position_def split: Option.bind_splits)

lemma satellite_position_unparseable:
  "py_float E (slice 52 63 (tle_line2 (snd e))) = None \<Longrightarrow> satellite_position E t e = None"
  by (auto simp: satellite_position_def split: Option.bind_splits)

lemma satellite_position_None_iff:
  "(satellite_position E t e = None) = (\<not> position_computable E t (snd e))"
  by (auto simp: satellite_position_def position_computable_def
      split: Option.bind_splits option.splits)

lemma satellite_position_name:
  "satellite_position E t e = Some p \<Longrightarrow> pos_name p = name (snd e)"
  by (auto simp: satellite_position_def split: Option.bind_splits)

lemma map_filter_ids:
  "map norad_id (List.map_filter (satellite_position E t) es)
     = map fst (filter (\<lambda>e. position_computable E t (snd e)) es)"
proof (induction es)
  case Nil
  then show ?case by (simp add: List.map_filter_simps)
next
  case (Cons e es)
  show ?case
  proof (cases "satellite_position E t e")
    case None
    with satellite_position_None_iff [of E t e] Cons show ?thesis
      by (simp add: List.map_filter_simps)
  next
    case (Some p)
    with satellite_position_None_iff [of E t e] satellite_position_id [OF Some] Cons
    show ?thesis by (simp add: List.map_filter_simps)
  qed
qed

text \<open>A quotient of moderate size does not overflow.\<close>

lemma float_overflow_large: "1000000 < float_overflow"
proof -
  have "(2 :: real) ^ 1024 = 2 ^ 54 * 2 ^ 970" by (simp add: power_add [symmetric])
  then have "float_overflow = (2 ^ 54 - 1) * 2 ^ 970"
    by (simp add: float_overflow_def algebra_simps)
  moreover have "(1 :: real) * 2 ^ 970 \<le> (2 ^ 54 - 1) * 2 ^ 970"
    by (intro mult_right_mono) simp_all
  moreover have "(2 :: real) ^ 20 \<le> 2 ^ 970" by (intro power_increasing) simp_all
  ultimately show ?thesis by simp
qed

lemma float_rdiv_moderate:
  assumes "\<bar>a / x\<bar> \<le> 1000000"
  shows "float_rdiv a (Float x) = Float (a / x)"
proof -
  from assms float_overflow_large have "\<not> float_overflow \<le> a / x" by linarith
  moreover from assms float_overflow_large have "\<not> a / x \<le> - float_overflow" by linarith
  ultimately show ?thesis by simp
qed

lemma get_satellite_positions_result:
  "get_satellite_positions E clock clock' t self = (self', out) \<Longrightarrow>
   out = List.map_filter (satellite_position E t) (satellites self')"
  by (auto simp: get_satellite_positions_def Let_def positions_loop_map_filter)

lemma get_satellite_positions_catalog_ok:
  "get_satellite_positions E clock clock' t self = (self', out) \<Longrightarrow>
   catalog_ok (satellites self) \<Longrightarrow> catalog_ok (satellites self')"
  using load_tle_data_from_ok [of self E tle_source_sets clock']
  by (auto simp: get_satellite_positions_def Let_def load_tle_data_def split: if_splits)

lemma set_map_filter: "set (List.map_filter f xs) = {y. \<exists>x \<in> set xs. f x = Some y}"
  by (induction xs) (auto simp: List.map_filter_simps split: option.splits)

lemma example_fields:
  "requests_get example_env = (\<lambda>url. if url = backup_url then Some example_response else None)"
  "EarthSatellite example_env = (\<lambda>line1 line2 nm. Some (line1, line2))"
  "sat_at example_env = (\<lambda>sat t. Some (7000, 0, 0))"
  "subpoint example_env = (\<lambda>pos t. Some \<lparr>latitude = 0, longitude = 0, altitude = 400\<rparr>)"
  "py_float example_env = example_float"
  "year_day_date example_env
     = (\<lambda>year d. if year = 2023 \<and> d = Float 1 then Some ''2023-01-01'' else None)"
  "topocentric_altaz example_env = (\<lambda>sat obs t. Some (45, 180, 1000))"
  by (simp_all add: example_env_def)

lemma example_launch_date:
  "extract_launch_date example_env ''23001.00000000'' = ''2023-01-01''"
  by (simp add: extract_launch_date_def example_fields example_float_def py_int_def
      int_space_def is_digit_def digit_val_def)

lemma example_position_iss:
  "satellite_position example_env 2459946 (25544, iss_entry) = Some iss_position"
  by (simp add: satellite_position_def example_fields iss_entry_def slice_def
      example_float_def velocity_of_def orbital_period_of_def float_rdiv_moderate iss_position_def
      example_launch_date del: float_rdiv.simps)

lemma example_position_starlink:
  "satellite_position example_env 2459946 (44713, starlink_entry) = Some starlink_position"
  by (simp add: satellite_position_def example_fields starlink_entry_def slice_def
      example_float_def velocity_of_def orbital_period_of_def float_rdiv_moderate
      starlink_position_def example_launch_date del: float_rdiv.simps)

lemma example_corrupt_mean_motion:
  "py_float example_env (slice 52 63 (tle_line2 corrupt_entry)) = None"
  by (simp add: example_fields corrupt_entry_def slice_def example_float_def)

lemma example_position_corrupt:
  "satellite_position example_env 2459946 (99999, corrupt_entry) = None"
  using satellite_position_unparseable [of example_env "(99999, corrupt_entry)" 2459946]
    example_corrupt_mean_motion by simp

lemma example_catalog_ok: "catalog_ok (satellites example_tracker)"
  by (simp add: example_tracker_def example_catalog_def catalog_ok_def iss_entry_def
      starlink_entry_def corrupt_entry_def)

lemma example_positions:
  "get_satellite_positions example_env 1500 1500 2459946 example_tracker
     = (example_tracker, [iss_position, starlink_position])"
proof -
  have "\<not> should_update_tle 1500 example_tracker"
    by (simp add: should_update_tle_def example_tracker_def update_interval_def)
  moreover have "satellites example_tracker = example_catalog"
    by (simp add: example_tracker_def)
  ultimately show ?thesis
    by (simp add: get_satellite_positions_def example_catalog_def example_position_iss
        example_position_starlink example_position_corrupt)
qed

lemma example_iss_position_computable: "position_computable example_env 2459946 iss_entry"
  by (simp add: position_computable_def example_fields iss_entry_def slice_def example_float_def)

lemma failing_positions:
  "get_satellite_positions failing_env 1500 1500 2459946 example_tracker = (example_tracker, [])"
proof -
  have "\<not> should_update_tle 1500 example_tracker"
    by (simp add: should_update_tle_def example_tracker_def update_interval_def)
  moreover have "satellite_position failing_env 2459946 e = None" for e
    by (simp add: satellite_position_def failing_env_def)
  ultimately show ?thesis
    by (simp add: get_satellite_positions_def positions_loop_map_filter example_tracker_def
        example_catalog_def List.map_filter_simps)
qed

text \<open>
  C6. \<open>get_satellite_positions\<close> returns a list for every catalog (the failures of the
  calls for one entry are branches of the body of the loop), and the list is made of the
  results of exactly those entries whose own calls all succeed, in the order of the
  catalog. An entry has a record in the list if and only if its position now, the point
  below it, its positions half a second before and after and its mean motion field can
  all be computed: a failed propagation, a failed sub-point or a mean motion field that
  does not parse leaves out that entry and no other, and every entry whose calls succeed
  has its record there, whatever happens to the other entries.
\<close>

theorem positions_skip_failing_records:
  assumes ok: "catalog_ok (satellites self)"
    and run: "get_satellite_positions E clock clock' t self = (self', out)"
  shows "out = List.map_filter (satellite_position E t) (satellites self')
     \<and> map norad_id out
         = map fst (filter (\<lambda>e. position_computable E t (snd e)) (satellites self'))
     \<and> (\<forall>e \<in> set (satellites self').
           (fst e \<in> norad_id ` set out) = position_computable E t (snd e)
         \<and> (sat_at E (satellite (snd e)) t = None \<longrightarrow> fst e \<notin> norad_id ` set out)
         \<and> (\<forall>g. sat_at E (satellite (snd e)) t = Some g \<and> subpoint E g t = None \<longrightarrow>
                fst e \<notin> norad_id ` set out)
         \<and> (sat_at E (satellite (snd e)) (t - 0.5 / 86400) = None \<longrightarrow>
                fst e \<notin> norad_id ` set out)
         \<and> (sat_at E (satellite (snd e)) (t + 0.5 / 86400) = None \<longrightarrow>
                fst e \<notin> norad_id ` set out)
         \<and> (py_float E (slice 52 63 (tle_line2 (snd e))) = None \<longrightarrow> fst e \<notin> norad_id ` set out)
         \<and> (satellite_position E t e = None \<longrightarrow> fst e \<notin> norad_id ` set out)
         \<and> (\<forall>p. satellite_position E t e = Some p \<longrightarrow> p \<in> set out \<and> norad_id p = fst e)
         \<and> (position_computable E t (snd e) \<longrightarrow>
                (\<exists>p \<in> set out. norad_id p = fst e \<and> pos_name p = name (snd e))))
     \<and> (\<forall>p \<in> set out. \<exists>e \<in> set (satellites self'). satellite_position E t e = Some p)"
proof -
  from get_satellite_positions_result [OF run]
  have out: "out = List.map_filter (satellite_position E t) (satellites self')" .
  from get_satellite_positions_catalog_ok [OF run ok]
  have dist: "distinct (map fst (satellites self'))" by (simp add: catalog_ok_def)
  have ids: "map norad_id out
         = map fst (filter (\<lambda>e. position_computable E t (snd e)) (satellites self'))"
    unfolding out by (rule map_filter_ids)
  have omitted: "fst e \<notin> norad_id ` set out"
    if e: "e \<in> set (satellites self')" and none: "satellite_position E t e = None" for e
  proof
    assume "fst e \<in> norad_id ` set out"
    then obtain p where p: "p \<in> set out" "norad_id p = fst e" by auto
    from p(1) out obtain e' where e': "e' \<in> set (satellites self')"
      "satellite_position E t e' = Some p" by (auto simp: set_map_filter)
    from satellite_position_id [OF e'(2)] p(2) have "fst e' = fst e" by simp
    with dist e e' have "e' = e" by (metis eq_key_imp_eq_value prod.collapse)
    with e'(2) none show False by simp
  qed
  have present: "p \<in> set out \<and> norad_id p = fst e \<and> pos_name p = name (snd e)"
    if e: "e \<in> set (satellites self')" and some: "satellite_position E t e = Some p" for e p
    using e some out satellite_position_id [OF some] satellite_position_name [OF some]
    by (auto simp: set_map_filter)
  have a: "\<forall>e \<in> set (satellites self').
           (fst e \<in> norad_id ` set out) = position_computable E t (snd e)
         \<and> (sat_at E (satellite (snd e)) t = None \<longrightarrow> fst e \<notin> norad_id ` set out)
         \<and> (\<forall>g. sat_at E (satellite (snd e)) t = Some g \<and> subpoint E g t = None \<longrightarrow>
                fst e \<notin> norad_id ` set out)
         \<and> (sat_at E (satellite (snd e)) (t - 0.5 / 86400) = None \<longrightarrow>
                fst e \<notin> norad_id ` set out)
         \<and> (sat_at E (satellite (snd e)) (t + 0.5 / 86400) = None \<longrightarrow>
                fst e \<notin> norad_id ` set out)
         \<and> (py_float E (slice 52 63 (tle_line2 (snd e))) = None \<longrightarrow> fst e \<notin> norad_id ` set out)
         \<and> (satellite_position E t e = None \<longrightarrow> fst e \<notin> norad_id ` set out)
         \<and> (\<forall>p. satellite_position E t e = Some p \<longrightarrow> p \<in> set out \<and> norad_id p = fst e)
         \<and> (position_computable E t (snd e) \<longrightarrow>
                (\<exists>p \<in> set out. norad_id p = fst e \<and> pos_name p = name (snd e)))"
  proof
    fix e assume e: "e \<in> set (satellites self')"
    note iff = satellite_position_None_iff [of E t e]
    have c1: "(fst e \<in> norad_id ` set out) = position_computable E t (snd e)"
    proof (cases "satellite_position E t e")
      case None
      with omitted [OF e None] iff show ?thesis by simp
    next
      case (Some p)
      from present [OF e Some] have "p \<in> set out" and "norad_id p = fst e" by simp_all
      then have "fst e \<in> norad_id ` set out" by (metis imageI)
      moreover from Some iff have "position_computable E t (snd e)" by simp
      ultimately show ?thesis by simp
    qed
    have c2: "sat_at E (satellite (snd e)) t = None \<longrightarrow> fst e \<notin> norad_id ` set out"
      using c1 by (auto simp: position_computable_def)
    have c3: "\<forall>g. sat_at E (satellite (snd e)) t = Some g \<and> subpoint E g t = None \<longrightarrow>
                fst e \<notin> norad_id ` set out"
      using c1 by (auto simp: position_computable_def)
    have c4: "sat_at E (satellite (snd e)) (t - 0.5 / 86400) = None \<longrightarrow>
                fst e \<notin> norad_id ` set out"
      using c1 by (auto simp: position_computable_def)
    have c5: "sat_at E (satellite (snd e)) (t + 0.5 / 86400) = None \<longrightarrow>
                fst e \<notin> norad_id ` set out"
      using c1 by (auto simp: position_computable_def)
    have c6: "py_float E (slice 52 63 (tle_line2 (snd e))) = None \<longrightarrow> fst e \<notin> norad_id ` set out"
      using c1 by (auto simp: position_computable_def)
    have c7: "satellite_position E t e = None \<longrightarrow> fst e \<notin> norad_id ` set out"
      using omitted [OF e] by auto
    have c8: "\<forall>p. satellite_position E t e = Some p \<longrightarrow> p \<in> set out \<and> norad_id p = fst e"
      using present [OF e] by auto
    have c9: "position_computable E t (snd e) \<longrightarrow>
                (\<exists>p \<in> set out. norad_id p = fst e \<and> pos_name p = name (snd e))"
    proof
      assume "position_computable E t (snd e)"
      with iff obtain p where "satellite_position E t e = Some p" by auto
      from present [OF e this] show "\<exists>p \<in> set out. norad_id p = fst e \<and> pos_name p = name (snd e)"
        by auto
    qed
    from c1 c2 c3 c4 c5 c6 c7 c8 c9
    show "(fst e \<in> norad_id ` set out) = position_computable E t (snd e)
         \<and> (sat_at E (satellite (snd e)) t = None \<longrightarrow> fst e \<notin> norad_id ` set out)
         \<and> (\<forall>g. sat_at E (satellite (snd e)) t = Some g \<and> subpoint E g t = None \<longrightarrow>
                fst e \<notin> norad_id ` set out)
         \<and> (sat_at E (satellite (snd e)) (t - 0.5 / 86400) = None \<longrightarrow>
                fst e \<notin> norad_id ` set out)
         \<and> (sat_at E (satellite (snd e)) (t + 0.5 / 86400) = None \<longrightarrow>
                fst e \<notin> norad_id ` set out)
         \<and> (py_float E (slice 52 63 (tle_line2 (snd e))) = None \<longrightarrow> fst e \<notin> norad_id ` set out)
         \<and> (satellite_position E t e = None \<longrightarrow> fst e \<notin> norad_id ` set out)
         \<and> (\<forall>p. satellite_position E t e = Some p \<longrightarrow> p \<in> set out \<and> norad_id p = fst e)
         \<and> (position_computable E t (snd e) \<longrightarrow>
                (\<exists>p \<in> set out. norad_id p = fst e \<and> pos_name p = name (snd e)))"
      by (intro conjI)
  qed
  have b: "\<forall>p \<in> set out. \<exists>e \<in> set (satellites self'). satellite_position E t e = Some p"
    using out by (auto simp: set_map_filter)
  from out ids a b show ?thesis by (intro conjI)
qed

theorem positions_skip_failing_records_witness:
  "catalog_ok (satellites example_tracker)
   \<and> get_satellite_positions example_env 1500 1500 2459946 example_tracker
       = (example_tracker, [iss_position, starlink_position])
   \<and> (99999, corrupt_entry) \<in> set (satellites example_tracker)
   \<and> py_float example_env (slice 52 63 (tle_line2 (snd (99999 :: int, corrupt_entry)))) = None
   \<and> fst (99999 :: int, corrupt_entry) \<notin> norad_id ` set [iss_position, starlink_position]
   \<and> (25544, iss_entry) \<in> set (satellites example_tracker)
   \<and> position_computable example_env 2459946 (snd (25544 :: int, iss_entry))
   \<and> fst (25544 :: int, iss_entry) \<in> norad_id ` set [iss_position, starlink_position]
   \<and> get_satellite_positions failing_env 1500 1500 2459946 example_tracker = (example_tracker, [])
   \<and> sat_at failing_env (satellite (snd (25544 :: int, iss_entry))) 2459946 = None
   \<and> fst (25544 :: int, iss_entry) \<notin> norad_id ` set ([] :: position list)"
proof -
  have mem: "(99999, corrupt_entry) \<in> set (satellites example_tracker)"
    and mem_iss: "(25544, iss_entry) \<in> set (satellites example_tracker)"
    by (simp_all add: example_tracker_def example_catalog_def)
  have mm: "py_float example_env (slice 52 63 (tle_line2 (snd (99999 :: int, corrupt_entry)))) = None"
    using example_corrupt_mean_motion by simp
  have comp: "position_computable example_env 2459946 (snd (25544 :: int, iss_entry))"
    using example_iss_position_computable by simp
  have fail: "sat_at failing_env (satellite (snd (25544 :: int, iss_entry))) 2459946 = None"
    by (simp add: failing_env_def)
  note ex = positions_skip_failing_records [OF example_catalog_ok example_positions]
  from ex mem mm
  have a: "fst (99999 :: int, corrupt_entry) \<notin> norad_id ` set [iss_position, starlink_position]"
    by blast
  from ex mem_iss comp
  have b: "fst (25544 :: int, iss_entry) \<in> norad_id ` set [iss_position, starlink_position]"
    by blast
  from positions_skip_failing_records [OF example_catalog_ok failing_positions] mem_iss fail
  have c: "fst (25544 :: int, iss_entry) \<notin> norad_id ` set ([] :: position list)"
    by blast
  from example_catalog_ok example_positions mem mm a mem_iss comp b failing_positions fail c
  show ?thesis by (intro conjI)
qed

lemma digit_not_int_space: "is_digit c \<Longrightarrow> \<not> int_space c"
  by (auto simp: is_digit_def int_space_def Let_def)

lemma py_int_century:
  assumes c1: "is_digit c1" and c2: "is_digit c2"
  shows "py_int (''20'' @ [c1, c2]) = Some (2000 + int (10 * digit_val c1 + digit_val c2))"
    and "py_int (''19'' @ [c1, c2]) = Some (1900 + int (10 * digit_val c1 + digit_val c2))"
  using c1 c2 digit_not_int_space [OF c1] digit_not_int_space [OF c2]
  by (auto simp: py_int_def Let_def is_digit_def int_space_def digit_val_def)

lemma str_lt_57:
  assumes c1: "is_digit c1" and c2: "is_digit c2"
  shows "str_lt [c1, c2] ''57'' = (10 * digit_val c1 + digit_val c2 < 57)"
proof -
  have "of_char (CHR ''5'') = (53 :: nat)" by simp
  then have five: "(c1 = CHR ''5'') = (of_char c1 = (53 :: nat))"
    using of_char_eq_iff [of c1 "CHR ''5''", where ?'a = nat] by simp
  from c1 c2 show ?thesis
    by (auto simp: is_digit_def digit_val_def Let_def five)
qed

lemma extract_launch_date_two_digits:
  assumes c1: "is_digit c1" and c2: "is_digit c2"
  shows "extract_launch_date E (c1 # c2 # rest) =
     (case py_float E rest of
        None \<Rightarrow> ''Unknown''
      | Some day_of_year \<Rightarrow>
          (case year_day_date E
                  (if 10 * digit_val c1 + digit_val c2 < 57
                   then 2000 + int (10 * digit_val c1 + digit_val c2)
                   else 1900 + int (10 * digit_val c1 + digit_val c2)) day_of_year of
             None \<Rightarrow> ''Unknown''
           | Some s \<Rightarrow> s))"
proof -
  have t: "take 2 (c1 # c2 # rest) = [c1, c2]" and d: "drop 2 (c1 # c2 # rest) = rest"
    by (simp_all add: numeral_2_eq_2)
  show ?thesis
    unfolding extract_launch_date_def t d str_lt_57 [OF c1 c2]
    using py_int_century [OF c1 c2] by (simp split: option.splits)
qed

lemma orbital_period_finite:
  "orbital_period_of (Float x)
     = (if 0 < x then (if float_overflow \<le> 1440 / x then PosInf else Float (1440 / x))
        else Float 0)"
proof (cases "0 < x")
  case True
  then have "0 < 1440 / x" by simp
  moreover have "0 < float_overflow" using float_overflow_large by simp
  ultimately have "\<not> 1440 / x \<le> - float_overflow" by linarith
  with True show ?thesis by (simp add: orbital_period_of_def)
next
  case False
  then show ?thesis by (simp add: orbital_period_of_def)
qed

lemma orbital_period_not_finite:
  "orbital_period_of PosInf = Float 0" "orbital_period_of NegInf = Float 0"
  "orbital_period_of NaN = Float 0"
  by (simp_all add: orbital_period_of_def)

lemma orbital_period_overflow: "orbital_period_of (Float (1 / 2 ^ 1060)) = PosInf"
proof -
  have "(2 :: real) ^ 1024 \<le> 2 ^ 1060" by (intro power_increasing) simp_all
  then have "float_overflow \<le> 1440 * 2 ^ 1060" by (simp add: float_overflow_def)
  then show ?thesis by (simp add: orbital_period_finite del: power_numeral)
qed

text \<open>
  C7. Every record of the position list comes from an entry of the catalog whose second
  line holds, in columns 52 to 62, a mean motion that \<open>float\<close> parses; its orbital period
  is the float quotient \<open>1440 / mean_motion\<close> when the mean motion is positive and 0
  otherwise (so 0 for a mean motion at or below 0, and for not-a-number). For a finite
  positive mean motion the quotient is the exact one, or the infinity where that
  overflows the doubles; for an infinite mean motion it is 0. Its launch date is read from columns 18 to 31 of the first
  line: when the first two characters are digits, the year is 2000 plus that number when
  the number is below 57 and 1900 plus it otherwise, the rest is the day of the year, and
  the date is the first of January of the year plus the days (\<open>Unknown\<close> when the day does
  not parse or the date cannot be formed).
\<close>

theorem period_and_launch_date:
  assumes run: "get_satellite_positions E clock clock' t self = (self', out)"
    and p: "p \<in> set out"
  shows "\<exists>e \<in> set (satellites self'). \<exists>mean_motion.
            norad_id p = fst e
          \<and> py_float E (slice 52 63 (tle_line2 (snd e))) = Some mean_motion
          \<and> orbital_period p
              = (if float_gt0 mean_motion then float_rdiv 1440 mean_motion else Float 0)
          \<and> (\<forall>x. mean_motion = Float x \<longrightarrow>
                orbital_period p
                  = (if 0 < x
                     then (if float_overflow \<le> 1440 / x then PosInf else Float (1440 / x))
                     else Float 0))
          \<and> (mean_motion = PosInf \<or> mean_motion = NegInf \<or> mean_motion = NaN \<longrightarrow>
                orbital_period p = Float 0)
          \<and> launch_date p = extract_launch_date E (slice 18 32 (tle_line1 (snd e)))
          \<and> (\<forall>c1 c2 rest.
                slice 18 32 (tle_line1 (snd e)) = c1 # c2 # rest \<and> is_digit c1 \<and> is_digit c2 \<longrightarrow>
                launch_date p =
                  (case py_float E rest of
                     None \<Rightarrow> ''Unknown''
                   | Some day_of_year \<Rightarrow>
                       (case year_day_date E
                               (if 10 * digit_val c1 + digit_val c2 < 57
                                then 2000 + int (10 * digit_val c1 + digit_val c2)
                                else 1900 + int (10 * digit_val c1 + digit_val c2))
                               day_of_year of
                          None \<Rightarrow> ''Unknown''
                        | Some s \<Rightarrow> s)))"
proof -
  from get_satellite_positions_result [OF run] p
  obtain e where e: "e \<in> set (satellites self')" "satellite_position E t e = Some p"
    by (auto simp: set_map_filter)
  from satellite_position_mean_motion [OF e(2)]
  obtain mean_motion where mm: "py_float E (slice 52 63 (tle_line2 (snd e))) = Some mean_motion"
    "orbital_period p = orbital_period_of mean_motion"
    "launch_date p = extract_launch_date E (slice 18 32 (tle_line1 (snd e)))" by blast
  have pivot: "launch_date p =
                  (case py_float E rest of
                     None \<Rightarrow> ''Unknown''
                   | Some day_of_year \<Rightarrow>
                       (case year_day_date E
                               (if 10 * digit_val c1 + digit_val c2 < 57
                                then 2000 + int (10 * digit_val c1 + digit_val c2)
                                else 1900 + int (10 * digit_val c1 + digit_val c2))
                               day_of_year of
                          None \<Rightarrow> ''Unknown''
                        | Some s \<Rightarrow> s))"
    if "slice 18 32 (tle_line1 (snd e)) = c1 # c2 # rest" "is_digit c1" "is_digit c2"
    for c1 c2 rest
    using mm(3) that extract_launch_date_two_digits [of c1 c2 E rest] by simp
  have per: "orbital_period p
                  = (if 0 < x
                     then (if float_overflow \<le> 1440 / x then PosInf else Float (1440 / x))
                     else Float 0)"
    if "mean_motion = Float x" for x
    using mm(2) that orbital_period_finite [of x] by simp
  have special: "mean_motion = PosInf \<or> mean_motion = NegInf \<or> mean_motion = NaN \<longrightarrow>
                orbital_period p = Float 0"
    using mm(2) orbital_period_not_finite by auto
  from mm(2) have "orbital_period p
      = (if float_gt0 mean_motion then float_rdiv 1440 mean_motion else Float 0)"
    by (simp add: orbital_period_of_def)
  with e(1) satellite_position_id [OF e(2)] mm(1,3) pivot per special show ?thesis by blast
qed

lemma example_iss_fields:
  "py_float example_env (slice 52 63 (tle_line2 iss_entry)) = Some (Float 15.49309239)"
  "slice 18 32 (tle_line1 iss_entry) = CHR ''2'' # CHR ''3'' # ''001.00000000''"
  "is_digit CHR ''2''" "is_digit CHR ''3''"
  by (simp_all add: example_fields iss_entry_def slice_def example_float_def is_digit_def)

theorem period_and_launch_date_witness:
  "get_satellite_positions example_env 1500 1500 2459946 example_tracker
       = (example_tracker, [iss_position, starlink_position])
   \<and> iss_position \<in> set [iss_position, starlink_position]
   \<and> py_float example_env (slice 52 63 (tle_line2 iss_entry)) = Some (Float 15.49309239)
   \<and> slice 18 32 (tle_line1 iss_entry) = CHR ''2'' # CHR ''3'' # ''001.00000000''
   \<and> is_digit CHR ''2'' \<and> is_digit CHR ''3''
   \<and> orbital_period iss_position = Float (1440 / 15.49309239)
   \<and> launch_date iss_position = ''2023-01-01''"
proof -
  have mem: "iss_position \<in> set [iss_position, starlink_position]" by simp
  from period_and_launch_date [OF example_positions mem]
  obtain e mean_motion where e: "e \<in> set (satellites example_tracker)"
    and id: "norad_id iss_position = fst e"
    and mm: "py_float example_env (slice 52 63 (tle_line2 (snd e))) = Some mean_motion"
    and per: "\<forall>x. mean_motion = Float x \<longrightarrow>
                orbital_period iss_position
                  = (if 0 < x
                     then (if float_overflow \<le> 1440 / x then PosInf else Float (1440 / x))
                     else Float 0)"
    and pivot: "\<forall>c1 c2 rest.
                slice 18 32 (tle_line1 (snd e)) = c1 # c2 # rest \<and> is_digit c1 \<and> is_digit c2 \<longrightarrow>
                launch_date iss_position =
                  (case py_float example_env rest of
                     None \<Rightarrow> ''Unknown''
                   | Some day_of_year \<Rightarrow>
                       (case year_day_date example_env
                               (if 10 * digit_val c1 + digit_val c2 < 57
                                then 2000 + int (10 * digit_val c1 + digit_val c2)
                                else 1900 + int (10 * digit_val c1 + digit_val c2))
                               day_of_year of
                          None \<Rightarrow> ''Unknown''
                        | Some s \<Rightarrow> s))"
    by blast
  have "norad_id iss_position = 25544" by (simp add: iss_position_def)
  with e id have e_iss: "e = (25544, iss_entry)"
    by (auto simp: example_tracker_def example_catalog_def)
  from mm e_iss example_iss_fields(1) have "mean_motion = Float 15.49309239" by simp
  with per have "orbital_period iss_position
      = (if 0 < (15.49309239 :: real)
         then (if float_overflow \<le> 1440 / 15.49309239 then PosInf
               else Float (1440 / 15.49309239))
         else Float 0)" by blast
  moreover have "\<not> float_overflow \<le> 1440 / 15.49309239"
    using float_overflow_large by simp
  ultimately have period: "orbital_period iss_position = Float (1440 / 15.49309239)" by simp
  from pivot e_iss example_iss_fields(2,3,4)
  have "launch_date iss_position =
          (case py_float example_env ''001.00000000'' of
             None \<Rightarrow> ''Unknown''
           | Some day_of_year \<Rightarrow>
               (case year_day_date example_env
                       (if 10 * digit_val (CHR ''2'') + digit_val (CHR ''3'') < 57
                        then 2000 + int (10 * digit_val (CHR ''2'') + digit_val (CHR ''3''))
                        else 1900 + int (10 * digit_val (CHR ''2'') + digit_val (CHR ''3'')))
                       day_of_year of
                  None \<Rightarrow> ''Unknown''
                | Some s \<Rightarrow> s))"
    by simp
  then have date: "launch_date iss_position = ''2023-01-01''"
    by (simp add: example_fields example_float_def digit_val_def)
  from example_positions mem example_iss_fields period date show ?thesis by blast
qed

section \<open>The ground track\<close>

lemma path_loop_map_filter:
  "path_loop E sat ts acc = acc @ List.map_filter (orbit_point_at E sat) ts"
  by (induction ts arbitrary: acc)
     (simp_all add: List.map_filter_simps orbit_point_at_def split: option.splits)

lemma length_map_filter_le: "length (List.map_filter f xs) \<le> length xs"
  by (induction xs) (auto simp: List.map_filter_simps split: option.splits)

lemma length_time_points: "length (time_points t hours) = 100"
  by (simp add: time_points_def num_points_def)

lemma nth_time_points: "i < 100 \<Longrightarrow> time_points t hours ! i = t + real i * (hours / 2400)"
  by (simp add: time_points_def num_points_def)

lemma time_points_range:
  assumes h: "0 \<le> hours" and x: "x \<in> set (time_points t hours)"
  shows "t \<le> x \<and> x \<le> t + hours / 24"
proof -
  from x obtain i where i: "i < 100" "x = t + real i * (hours / 2400)"
    by (auto simp: time_points_def num_points_def)
  from i(1) have "real i \<le> 100" by simp
  with h have "real i * (hours / 2400) \<le> 100 * (hours / 2400)"
    by (intro mult_right_mono) simp_all
  moreover from h have "0 \<le> real i * (hours / 2400)" by simp
  ultimately show ?thesis using i(2) by simp
qed

text \<open>
  C9. For a catalog id that is present, \<open>get_orbital_path\<close> takes 100 sample times, the
  time \<open>i\<close> being \<open>current_time\<close> plus \<open>i\<close> hundredths of the horizon (in days:
  \<open>i * hours / 2400\<close>), for \<open>i\<close> from 0 to 99: equal steps, all inside the interval from
  \<open>current_time\<close> to \<open>current_time\<close> plus the horizon when the horizon is not negative, the
  last one a step before its end. The result holds the point of each sample whose
  computation succeeds, in order, so it has at most 100 points.
\<close>

theorem orbital_path_samples:
  assumes present: "map_of (satellites self) nid = Some sat_data"
  shows "get_orbital_path E t self nid hours
           = List.map_filter (orbit_point_at E (satellite sat_data)) (time_points t hours)
     \<and> length (time_points t hours) = 100
     \<and> (\<forall>i < 100. time_points t hours ! i = t + real i * (hours / 2400))
     \<and> (\<forall>i < 99. time_points t hours ! Suc i - time_points t hours ! i = hours / 2400)
     \<and> (0 \<le> hours \<longrightarrow> (\<forall>x \<in> set (time_points t hours). t \<le> x \<and> x \<le> t + hours / 24))
     \<and> length (get_orbital_path E t self nid hours) \<le> 100"
proof -
  have eq: "get_orbital_path E t self nid hours
           = List.map_filter (orbit_point_at E (satellite sat_data)) (time_points t hours)"
    using present by (simp add: get_orbital_path_def path_loop_map_filter)
  have step: "\<forall>i < 99. time_points t hours ! Suc i - time_points t hours ! i = hours / 2400"
  proof (intro allI impI)
    fix i :: nat assume "i < 99"
    then have "i < 100" "Suc i < 100" by simp_all
    then show "time_points t hours ! Suc i - time_points t hours ! i = hours / 2400"
      by (simp add: nth_time_points algebra_simps)
  qed
  have len: "length (get_orbital_path E t self nid hours) \<le> 100"
    unfolding eq
    using length_map_filter_le [of "orbit_point_at E (satellite sat_data)" "time_points t hours"]
    by (simp add: length_time_points)
  from eq length_time_points nth_time_points step time_points_range len show ?thesis
    by blast
qed

lemma path_all_fail:
  "\<forall>x. sat_at E sat x = None \<Longrightarrow> List.map_filter (orbit_point_at E sat) ts = []"
  by (induction ts) (simp_all add: List.map_filter_simps orbit_point_at_def)

lemma path_all_succeed:
  "\<forall>x. orbit_point_at E sat x \<noteq> None \<Longrightarrow> length (List.map_filter (orbit_point_at E sat) ts) = length ts"
  by (induction ts) (auto simp: List.map_filter_simps split: option.splits)

lemma example_present: "map_of (satellites example_tracker) 25544 = Some iss_entry"
  by (simp add: example_tracker_def example_catalog_def)

lemma failing_sat_at: "sat_at failing_env sat x = None"
  by (simp add: failing_env_def)

lemma example_point: "orbit_point_at example_env sat x \<noteq> None"
  by (simp add: orbit_point_at_def example_fields)

theorem orbital_path_samples_witness:
  "map_of (satellites example_tracker) 25544 = Some iss_entry
   \<and> length (get_orbital_path example_env 2459946 example_tracker 25544 2) = 100
   \<and> get_orbital_path failing_env 2459946 example_tracker 25544 2 = []
   \<and> time_points 2459946 2 ! 50 = 2459946 + real 50 * (2 / 2400)
   \<and> time_points 2459946 2 ! Suc 50 - time_points 2459946 2 ! 50 = 2 / 2400
   \<and> (0 :: real) \<le> 2
   \<and> time_points 2459946 2 ! 99 \<in> set (time_points 2459946 2)
   \<and> time_points 2459946 2 ! 99 \<le> 2459946 + 2 / 24"
proof -
  note ex = orbital_path_samples [OF example_present, of example_env 2459946 2]
  note fl = orbital_path_samples [OF example_present, of failing_env 2459946 2]
  from ex have "get_orbital_path example_env 2459946 example_tracker 25544 2
       = List.map_filter (orbit_point_at example_env (satellite iss_entry)) (time_points 2459946 2)"
    and len: "length (time_points 2459946 2) = 100" by blast+
  with path_all_succeed [of example_env "satellite iss_entry" "time_points 2459946 2"] example_point
  have a: "length (get_orbital_path example_env 2459946 example_tracker 25544 2) = 100" by simp
  from fl have "get_orbital_path failing_env 2459946 example_tracker 25544 2
       = List.map_filter (orbit_point_at failing_env (satellite iss_entry)) (time_points 2459946 2)"
    by blast
  with path_all_fail [of failing_env "satellite iss_entry" "time_points 2459946 2"] failing_sat_at
  have b: "get_orbital_path failing_env 2459946 example_tracker 25544 2 = []" by simp
  from ex have c: "time_points 2459946 2 ! 50 = 2459946 + real 50 * (2 / 2400)" by simp
  from ex have steps: "\<forall>i < 99. time_points 2459946 2 ! Suc i - time_points 2459946 2 ! i = 2 / 2400"
    by blast
  have d: "time_points 2459946 2 ! Suc 50 - time_points 2459946 2 ! 50 = 2 / 2400"
    by (rule steps [rule_format]) simp
  from len have mem: "time_points 2459946 2 ! 99 \<in> set (time_points 2459946 2)" by simp
  from ex have "\<forall>x \<in> set (time_points 2459946 2). 2459946 \<le> x \<and> x \<le> 2459946 + 2 / 24" by simp
  with mem have e: "time_points 2459946 2 ! 99 \<le> 2459946 + 2 / 24" by blast
  from example_present a b c d mem e show ?thesis by simp
qed

section \<open>Passes and unknown ids\<close>

lemma passes_loop_skip_orphans:
  "\<forall>ev \<in> set pre. snd ev \<noteq> 0 \<Longrightarrow>
   passes_loop E sat obs (pre @ evs) None ps = passes_loop E sat obs evs None ps"
  by (induction pre) (auto split: prod.splits)

lemma passes_loop_extends:
  "\<exists>ext. passes_loop E sat obs evs cp ps = ps @ ext"
proof (induction evs arbitrary: cp ps)
  case Nil
  then show ?case by simp
next
  case (Cons ev evs)
  obtain tp event where ev: "ev = (tp, event)" by (cases ev)
  have keep: "\<exists>ext. ps = ps @ ext" by simp
  have more: "\<exists>ext. passes_loop E sat obs evs cp' (ps @ [p]) = ps @ ext" for cp' p
    using Cons.IH [of cp' "ps @ [p]"] by auto
  show ?case
    unfolding ev passes_loop.simps
    using keep more Cons.IH [of _ ps]
    by (auto split: option.splits prod.splits)
qed

text \<open>
  C10. When the catalog id is absent, \<open>get_orbital_path\<close> and \<open>get_next_passes\<close> both
  return the empty list. The same list comes back for an id that is present when no
  sample can be computed, or when the library reports no event: the result does not tell
  the cases apart.
\<close>

theorem unknown_satellite_gives_empty_lists:
  "(map_of (satellites self) nid = None \<longrightarrow>
      get_orbital_path E t self nid hours = [] \<and> get_next_passes E t self nid obs days = [])
   \<and> (map_of (satellites self) nid = Some sat_data \<and> (\<forall>x. sat_at E (satellite sat_data) x = None) \<longrightarrow>
        get_orbital_path E t self nid hours = [])
   \<and> (map_of (satellites self) nid = Some sat_data
        \<and> find_events E (satellite sat_data) obs t (t + days) = Some [] \<longrightarrow>
        get_next_passes E t self nid obs days = [])"
  using path_all_fail [of E "satellite sat_data" "time_points t hours"]
  by (auto simp: get_orbital_path_def get_next_passes_def path_loop_map_filter)

lemma example_absent: "map_of (satellites example_tracker) 12345 = None"
  by (simp add: example_tracker_def example_catalog_def)

lemma quiet_events: "find_events quiet_env sat obs t0 t1 = Some []"
  by (simp add: quiet_env_def)

theorem unknown_satellite_gives_empty_lists_witness:
  "map_of (satellites example_tracker) 12345 = None
   \<and> get_orbital_path example_env 2459946 example_tracker 12345 2 = []
   \<and> get_next_passes example_env 2459946 example_tracker 12345 origin 7 = []
   \<and> map_of (satellites example_tracker) 25544 = Some iss_entry
   \<and> sat_at failing_env (satellite iss_entry) 2459946 = None
   \<and> get_orbital_path failing_env 2459946 example_tracker 25544 2 = []
   \<and> find_events quiet_env (satellite iss_entry) origin 2459946 (2459946 + 7) = Some []
   \<and> get_next_passes quiet_env 2459946 example_tracker 25544 origin 7 = []"
proof -
  from unknown_satellite_gives_empty_lists
    [of example_tracker 12345 example_env 2459946 2 origin 7 iss_entry] example_absent
  have a: "get_orbital_path example_env 2459946 example_tracker 12345 2 = []"
    "get_next_passes example_env 2459946 example_tracker 12345 origin 7 = []" by blast+
  from unknown_satellite_gives_empty_lists
    [of example_tracker 25544 failing_env 2459946 2 origin 7 iss_entry] example_present
    failing_sat_at
  have b: "get_orbital_path failing_env 2459946 example_tracker 25544 2 = []" by blast
  from unknown_satellite_gives_empty_lists
    [of example_tracker 25544 quiet_env 2459946 2 origin 7 iss_entry] example_present
    quiet_events
  have c: "get_next_passes quiet_env 2459946 example_tracker 25544 origin 7 = []" by blast
  from example_absent a example_present failing_sat_at b quiet_events c show ?thesis by blast
qed

lemma length_get_next_passes: "length (get_next_passes E t self nid obs days) \<le> 3"
  by (simp add: get_next_passes_def split: option.splits)

lemma passes_loop_cycle:
  assumes culm: "topocentric_altaz E sat obs t_culm = Some a1"
    and rise: "fromisoformat E (utc_iso E t_rise) = Some rise_dt"
    and az_rise: "topocentric_altaz E sat obs (from_datetime E rise_dt) = Some a2"
    and az_set: "topocentric_altaz E sat obs t_set = Some a3"
    and set: "fromisoformat E (utc_iso E t_set) = Some set_dt"
  shows "passes_loop E sat obs ((t_rise, 0) # (t_culm, 1) # (t_set, 2) # rest) cp []
    = passes_loop E sat obs rest None
        [\<lparr>rise_time = utc_iso E t_rise, rise_azimuth = Some (fst (snd a2)),
          culmination_time = Some (utc_iso E t_culm), max_elevation = Some (fst a1),
          culmination_azimuth = Some (fst (snd a1)), set_time = Some (utc_iso E t_set),
          set_azimuth = Some (fst (snd a3)),
          duration_minutes = Some ((set_dt - rise_dt) / 60)\<rparr>]"
  using assms by (cases a1; cases a2; cases a3) simp

lemma passes_loop_no_set:
  "\<forall>ev \<in> set rest. snd ev \<noteq> 2 \<Longrightarrow> passes_loop E sat obs rest cp ps = ps"
  by (induction rest arbitrary: cp) (auto split: option.splits prod.splits)

lemma passes_loop_one_cycle:
  "passes_loop E sat obs (cycle_events cyc @ evs) cp ps =
     (case cycle_pass E sat obs cyc of
        None \<Rightarrow> ps
      | Some p \<Rightarrow> passes_loop E sat obs evs None (ps @ [p]))"
proof -
  obtain t_rise t_culm t_set where cyc: "cyc = (t_rise, t_culm, t_set)" by (cases cyc)
  show ?thesis
    unfolding cyc cycle_events_def cycle_pass_def
    by (simp split: option.splits prod.splits Option.bind_splits)
qed

lemma passes_loop_cycles:
  assumes rest: "\<forall>ev \<in> set rest. snd ev \<noteq> 2"
  shows "passes_loop E sat obs (concat (map cycle_events cycles) @ rest) cp ps
    = ps @ map (the \<circ> cycle_pass E sat obs)
             (takeWhile (\<lambda>c. cycle_pass E sat obs c \<noteq> None) cycles)"
proof (induction cycles arbitrary: cp ps)
  case Nil
  from passes_loop_no_set [OF rest] show ?case by simp
next
  case (Cons cyc cycles)
  have "passes_loop E sat obs (concat (map cycle_events (cyc # cycles)) @ rest) cp ps
      = passes_loop E sat obs (cycle_events cyc @ (concat (map cycle_events cycles) @ rest)) cp ps"
    by simp
  also have "\<dots> = (case cycle_pass E sat obs cyc of
        None \<Rightarrow> ps
      | Some p \<Rightarrow> passes_loop E sat obs (concat (map cycle_events cycles) @ rest) None (ps @ [p]))"
    by (rule passes_loop_one_cycle)
  also have "\<dots> = ps @ map (the \<circ> cycle_pass E sat obs)
             (takeWhile (\<lambda>c. cycle_pass E sat obs c \<noteq> None) (cyc # cycles))"
    using Cons.IH by (cases "cycle_pass E sat obs cyc") simp_all
  finally show ?case .
qed

lemma cycle_pass_duration:
  assumes "cycle_pass E sat obs (t_rise, t_culm, t_set) = Some p"
  shows "\<exists>rise_dt set_dt. fromisoformat E (utc_iso E t_rise) = Some rise_dt
            \<and> fromisoformat E (utc_iso E t_set) = Some set_dt
            \<and> rise_time p = utc_iso E t_rise \<and> set_time p = Some (utc_iso E t_set)
            \<and> duration_minutes p = Some ((set_dt - rise_dt) / 60)
            \<and> ((0 < (set_dt - rise_dt) / 60) = (rise_dt < set_dt))"
  using assms by (auto simp: cycle_pass_def split: Option.bind_splits)

text \<open>
  C8 as amended. For a catalog id that is present, \<open>get_next_passes\<close> returns the first
  three passes found, or all of them when there are fewer: when the events are, after
  leading ones that are no rise, a run of complete cycles followed by events that are no
  set, the result is the passes of the first three cycles in their order, the run being
  cut at the first cycle for which a call raises. It returns the empty list when the
  library reports no event and when the search raises. The first pass of events that
  start (after leading ones that are no rise) with a complete cycle is that cycle's pass.
  The \<open>duration_minutes\<close> of a pass is the sixtieth of the seconds from its rise to its
  set, both read back from their ISO strings, which hold whole seconds: it is positive
  exactly when the set reads later than the rise, and it is 0 for a pass whose rise and
  set are written as the same second.
\<close>

theorem next_passes_first_three:
  assumes present: "map_of (satellites self) nid = Some sat_data"
  shows "length (get_next_passes E t self nid obs days) \<le> 3
     \<and> (find_events E (satellite sat_data) obs t (t + days) = Some [] \<longrightarrow>
          get_next_passes E t self nid obs days = [])
     \<and> (find_events E (satellite sat_data) obs t (t + days) = None \<longrightarrow>
          get_next_passes E t self nid obs days = [])
     \<and> (find_events E (satellite sat_data) obs t (t + days)
            = Some (pre @ concat (map cycle_events cycles) @ tail)
         \<and> (\<forall>ev \<in> set pre. snd ev \<noteq> 0) \<and> (\<forall>ev \<in> set tail. snd ev \<noteq> 2)
         \<longrightarrow> get_next_passes E t self nid obs days
               = take 3 (map (the \<circ> cycle_pass E (satellite sat_data) obs)
                   (takeWhile (\<lambda>c. cycle_pass E (satellite sat_data) obs c \<noteq> None) cycles)))
     \<and> (\<forall>r c s p. cycle_pass E (satellite sat_data) obs (r, c, s) = Some p \<longrightarrow>
          (\<exists>rise_dt set_dt. fromisoformat E (utc_iso E r) = Some rise_dt
            \<and> fromisoformat E (utc_iso E s) = Some set_dt
            \<and> rise_time p = utc_iso E r \<and> set_time p = Some (utc_iso E s)
            \<and> duration_minutes p = Some ((set_dt - rise_dt) / 60)
            \<and> ((0 < (set_dt - rise_dt) / 60) = (rise_dt < set_dt))))
     \<and> (find_events E (satellite sat_data) obs t (t + days)
            = Some (pre @ (t_rise, 0) # (t_culm, 1) # (t_set, 2) # rest)
         \<and> (\<forall>ev \<in> set pre. snd ev \<noteq> 0)
         \<and> topocentric_altaz E (satellite sat_data) obs t_culm = Some a1
         \<and> fromisoformat E (utc_iso E t_rise) = Some rise_dt
         \<and> topocentric_altaz E (satellite sat_data) obs (from_datetime E rise_dt) = Some a2
         \<and> topocentric_altaz E (satellite sat_data) obs t_set = Some a3
         \<and> fromisoformat E (utc_iso E t_set) = Some set_dt
         \<longrightarrow> get_next_passes E t self nid obs days \<noteq> []
             \<and> rise_time (hd (get_next_passes E t self nid obs days)) = utc_iso E t_rise
             \<and> set_time (hd (get_next_passes E t self nid obs days)) = Some (utc_iso E t_set)
             \<and> duration_minutes (hd (get_next_passes E t self nid obs days))
                 = Some ((set_dt - rise_dt) / 60)
             \<and> ((0 < (set_dt - rise_dt) / 60) = (rise_dt < set_dt)))"
proof -
  have empty: "find_events E (satellite sat_data) obs t (t + days) = Some [] \<longrightarrow>
          get_next_passes E t self nid obs days = []"
    using present by (simp add: get_next_passes_def)
  have raised: "find_events E (satellite sat_data) obs t (t + days) = None \<longrightarrow>
          get_next_passes E t self nid obs days = []"
    using present by (simp add: get_next_passes_def)
  have cycles: "get_next_passes E t self nid obs days
               = take 3 (map (the \<circ> cycle_pass E (satellite sat_data) obs)
                   (takeWhile (\<lambda>c. cycle_pass E (satellite sat_data) obs c \<noteq> None) cycles))"
    if ev: "find_events E (satellite sat_data) obs t (t + days)
            = Some (pre @ concat (map cycle_events cycles) @ tail)"
      and pre: "\<forall>ev \<in> set pre. snd ev \<noteq> 0" and tail: "\<forall>ev \<in> set tail. snd ev \<noteq> 2"
  proof -
    have "passes_loop E (satellite sat_data) obs
            (pre @ concat (map cycle_events cycles) @ tail) None []
          = passes_loop E (satellite sat_data) obs (concat (map cycle_events cycles) @ tail) None []"
      by (rule passes_loop_skip_orphans [OF pre])
    also have "\<dots> = [] @ map (the \<circ> cycle_pass E (satellite sat_data) obs)
                   (takeWhile (\<lambda>c. cycle_pass E (satellite sat_data) obs c \<noteq> None) cycles)"
      by (rule passes_loop_cycles [OF tail])
    finally show ?thesis using present ev by (simp add: get_next_passes_def)
  qed
  have dur: "\<forall>r c s p. cycle_pass E (satellite sat_data) obs (r, c, s) = Some p \<longrightarrow>
          (\<exists>rise_dt set_dt. fromisoformat E (utc_iso E r) = Some rise_dt
            \<and> fromisoformat E (utc_iso E s) = Some set_dt
            \<and> rise_time p = utc_iso E r \<and> set_time p = Some (utc_iso E s)
            \<and> duration_minutes p = Some ((set_dt - rise_dt) / 60)
            \<and> ((0 < (set_dt - rise_dt) / 60) = (rise_dt < set_dt)))"
    using cycle_pass_duration [of E "satellite sat_data" obs] by blast
  have cycle: "get_next_passes E t self nid obs days \<noteq> []
             \<and> rise_time (hd (get_next_passes E t self nid obs days)) = utc_iso E t_rise
             \<and> set_time (hd (get_next_passes E t self nid obs days)) = Some (utc_iso E t_set)
             \<and> duration_minutes (hd (get_next_passes E t self nid obs days))
                 = Some ((set_dt - rise_dt) / 60)
             \<and> ((0 < (set_dt - rise_dt) / 60) = (rise_dt < set_dt))"
    if ev: "find_events E (satellite sat_data) obs t (t + days)
            = Some (pre @ (t_rise, 0) # (t_culm, 1) # (t_set, 2) # rest)"
      and pre: "\<forall>ev \<in> set pre. snd ev \<noteq> 0"
      and culm: "topocentric_altaz E (satellite sat_data) obs t_culm = Some a1"
      and rise: "fromisoformat E (utc_iso E t_rise) = Some rise_dt"
      and az_rise: "topocentric_altaz E (satellite sat_data) obs (from_datetime E rise_dt) = Some a2"
      and az_set: "topocentric_altaz E (satellite sat_data) obs t_set = Some a3"
      and set: "fromisoformat E (utc_iso E t_set) = Some set_dt"
  proof -
    let ?p = "\<lparr>rise_time = utc_iso E t_rise, rise_azimuth = Some (fst (snd a2)),
          culmination_time = Some (utc_iso E t_culm), max_elevation = Some (fst a1),
          culmination_azimuth = Some (fst (snd a1)), set_time = Some (utc_iso E t_set),
          set_azimuth = Some (fst (snd a3)),
          duration_minutes = Some ((set_dt - rise_dt) / 60)\<rparr>"
    from passes_loop_extends [of E "satellite sat_data" obs rest None "[?p]"]
    obtain ext where ext: "passes_loop E (satellite sat_data) obs rest None [?p] = [?p] @ ext"
      by blast
    have "passes_loop E (satellite sat_data) obs
            (pre @ (t_rise, 0) # (t_culm, 1) # (t_set, 2) # rest) None []
          = passes_loop E (satellite sat_data) obs
              ((t_rise, 0) # (t_culm, 1) # (t_set, 2) # rest) None []"
      by (rule passes_loop_skip_orphans [OF pre])
    also have "\<dots> = passes_loop E (satellite sat_data) obs rest None [?p]"
      by (rule passes_loop_cycle [OF culm rise az_rise az_set set])
    finally have "passes_loop E (satellite sat_data) obs
            (pre @ (t_rise, 0) # (t_culm, 1) # (t_set, 2) # rest) None []
          = passes_loop E (satellite sat_data) obs rest None [?p]" .
    with ext present ev have "get_next_passes E t self nid obs days = take 3 (?p # ext)"
      by (simp add: get_next_passes_def)
    then have "get_next_passes E t self nid obs days = ?p # take 2 ext"
      by (simp add: numeral_3_eq_3 numeral_2_eq_2)
    then show ?thesis by simp
  qed
  from length_get_next_passes [of E t self nid obs days] empty raised cycles dur cycle
  show ?thesis by blast
qed

lemma single_cycle:
  assumes "cycle_pass E sat obs c = Some p"
  shows "take 3 (map (the \<circ> cycle_pass E sat obs)
           (takeWhile (\<lambda>c. cycle_pass E sat obs c \<noteq> None) [c])) = [p]"
  using assms by simp

lemma example_events:
  "find_events example_env (satellite iss_entry) origin 2459946 (2459946 + 7)
     = Some ([] @ (2459946.01, 0) # (2459946.0125, 1) # (2459946.015, 2) # [])"
  "topocentric_altaz example_env sat obs x = Some (45, 180, 1000)"
  "fromisoformat example_env (utc_iso example_env 2459946.01) = Some 864"
  "fromisoformat example_env (utc_iso example_env 2459946.015) = Some 1296"
  by (simp_all add: example_env_def)

lemma window_events:
  "find_events window_env (satellite iss_entry) origin 2459946 (2459946 + 7)
     = Some ([(2459946.001, 1), (2459946.002, 2)]
             @ concat (map cycle_events [(2459946.01, 2459946.0125, 2459946.015)])
             @ [(2459946.5, 0)])"
  by (simp add: window_env_def cycle_events_def)

lemma window_cycle_pass:
  "cycle_pass window_env (satellite iss_entry) origin (2459946.01, 2459946.0125, 2459946.015)
     = Some example_pass"
  by (simp add: cycle_pass_def window_env_def example_env_def example_pass_def)

lemma short_pass_events:
  "find_events short_pass_env (satellite iss_entry) origin 2459946 (2459946 + 7)
     = Some [(2459946.01, 0), (2459946.010002, 1), (2459946.010004, 2)]"
  by (simp add: short_pass_env_def)

lemma short_pass_cycle:
  "cycle_pass short_pass_env (satellite iss_entry) origin
     (2459946.01, 2459946.010002, 2459946.010004) = Some short_pass"
  by (simp add: cycle_pass_def short_pass_env_def example_env_def short_pass_def)

lemma short_pass_result:
  "get_next_passes short_pass_env 2459946 example_tracker 25544 origin 7 = [short_pass]"
proof -
  have "passes_loop short_pass_env (satellite iss_entry) origin
          (cycle_events (2459946.01, 2459946.010002, 2459946.010004) @ []) None []
        = [short_pass]"
    unfolding passes_loop_one_cycle short_pass_cycle by simp
  then have "passes_loop short_pass_env (satellite iss_entry) origin
          [(2459946.01, 0), (2459946.010002, 1), (2459946.010004, 2)] None [] = [short_pass]"
    by (simp add: cycle_events_def)
  with example_present short_pass_events show ?thesis
    by (simp add: get_next_passes_def)
qed

text \<open>
  C8 as stated does not hold: here the library reports a complete cycle whose set is
  later than its rise, and the pass returned for it has a duration of 0 minutes, since
  both times are written as the same second.
\<close>

theorem short_pass_has_zero_duration:
  "map_of (satellites example_tracker) 25544 = Some iss_entry
   \<and> find_events short_pass_env (satellite iss_entry) origin 2459946 (2459946 + 7)
       = Some [(2459946.01, 0), (2459946.010002, 1), (2459946.010004, 2)]
   \<and> (2459946.01 :: real) < 2459946.010004
   \<and> get_next_passes short_pass_env 2459946 example_tracker 25544 origin 7 = [short_pass]
   \<and> duration_minutes (hd (get_next_passes short_pass_env 2459946 example_tracker 25544 origin 7))
       = Some 0
   \<and> \<not> (0 :: real) < 0"
  using example_present short_pass_events short_pass_result
  by (simp add: short_pass_def)

theorem next_passes_first_three_witness:
  "map_of (satellites example_tracker) 25544 = Some iss_entry
   \<and> find_events window_env (satellite iss_entry) origin 2459946 (2459946 + 7)
       = Some ([(2459946.001, 1), (2459946.002, 2)]
               @ concat (map cycle_events [(2459946.01, 2459946.0125, 2459946.015)])
               @ [(2459946.5, 0)])
   \<and> cycle_pass window_env (satellite iss_entry) origin (2459946.01, 2459946.0125, 2459946.015)
       = Some example_pass
   \<and> get_next_passes window_env 2459946 example_tracker 25544 origin 7 = [example_pass]
   \<and> find_events example_env (satellite iss_entry) origin 2459946 (2459946 + 7)
       = Some ([] @ (2459946.01, 0) # (2459946.0125, 1) # (2459946.015, 2) # [])
   \<and> topocentric_altaz example_env (satellite iss_entry) origin 2459946.0125 = Some (45, 180, 1000)
   \<and> fromisoformat example_env (utc_iso example_env 2459946.01) = Some 864
   \<and> topocentric_altaz example_env (satellite iss_entry) origin (from_datetime example_env 864)
       = Some (45, 180, 1000)
   \<and> topocentric_altaz example_env (satellite iss_entry) origin 2459946.015 = Some (45, 180, 1000)
   \<and> fromisoformat example_env (utc_iso example_env 2459946.015) = Some 1296
   \<and> (864 :: real) < 1296
   \<and> get_next_passes example_env 2459946 example_tracker 25544 origin 7 \<noteq> []
   \<and> duration_minutes (hd (get_next_passes example_env 2459946 example_tracker 25544 origin 7))
       = Some ((1296 - 864) / 60)
   \<and> (0 :: real) < (1296 - 864) / 60
   \<and> find_events quiet_env (satellite iss_entry) origin 2459946 (2459946 + 7) = Some []
   \<and> get_next_passes quiet_env 2459946 example_tracker 25544 origin 7 = []"
proof -
  have pre: "\<forall>ev \<in> set ([] :: (real \<times> int) list). snd ev \<noteq> 0" by simp
  have wpre: "\<forall>ev \<in> set [(2459946.001 :: real, 1 :: int), (2459946.002, 2)]. snd ev \<noteq> 0"
    by simp
  have wtail: "\<forall>ev \<in> set [(2459946.5 :: real, 0 :: int)]. snd ev \<noteq> 2" by simp
  have lt: "(864 :: real) < 1296" by simp
  from next_passes_first_three [OF example_present, of window_env 2459946 origin 7
      "[(2459946.001, 1), (2459946.002, 2)]" "[(2459946.01, 2459946.0125, 2459946.015)]"
      "[(2459946.5, 0)]"]
    window_events wpre wtail
  have "get_next_passes window_env 2459946 example_tracker 25544 origin 7
      = take 3 (map (the \<circ> cycle_pass window_env (satellite iss_entry) origin)
          (takeWhile (\<lambda>c. cycle_pass window_env (satellite iss_entry) origin c \<noteq> None)
             [(2459946.01, 2459946.0125, 2459946.015)]))"
    by blast
  then have w: "get_next_passes window_env 2459946 example_tracker 25544 origin 7 = [example_pass]"
    by (rule trans [OF _ single_cycle [OF window_cycle_pass]])
  from next_passes_first_three [OF example_present, of example_env 2459946 origin 7
      "[]" _ _ "2459946.01" "2459946.0125" "2459946.015" "[]" "(45, 180, 1000)" 864
      "(45, 180, 1000)" "(45, 180, 1000)" 1296]
    example_events pre lt
  have a: "get_next_passes example_env 2459946 example_tracker 25544 origin 7 \<noteq> []"
    "duration_minutes (hd (get_next_passes example_env 2459946 example_tracker 25544 origin 7))
       = Some ((1296 - 864) / 60)"
    "(0 :: real) < (1296 - 864) / 60" by blast+
  from next_passes_first_three [OF example_present, of quiet_env 2459946 origin 7] quiet_events
  have b: "get_next_passes quiet_env 2459946 example_tracker 25544 origin 7 = []" by blast
  from example_present window_events window_cycle_pass w example_events lt a quiet_events b
  show ?thesis by (intro conjI)
qed

section \<open>The details of one satellite\<close>

lemma satellite_detail_None_iff:
  "(satellite_detail E t nid d = None) = (\<not> detail_computable E t d)"
  by (auto simp: satellite_detail_def detail_computable_def
      split: Option.bind_splits option.splits)

lemma satellite_detail_id:
  "satellite_detail E t nid d = Some det \<Longrightarrow> detail_norad_id det = nid"
  by (auto simp: satellite_detail_def split: Option.bind_splits)

text \<open>
  C5 as amended. \<open>get_satellite_details\<close> returns \<open>None\<close> when the catalog id is absent, and
  also when the id is present and a call of the guarded block raises (the propagation,
  the point below the satellite, or one of the five fields of line 2 that does not parse as
  a number); it returns a detail record, with the id asked for, exactly for the ids that
  are present and whose computation succeeds.
\<close>

theorem details_none_iff_absent_or_failed:
  "(get_satellite_details E t self nid = None)
     = (map_of (satellites self) nid = None
        \<or> (\<exists>d. map_of (satellites self) nid = Some d \<and> \<not> detail_computable E t d))
   \<and> (\<forall>det. get_satellite_details E t self nid = Some det \<longrightarrow>
          detail_norad_id det = nid \<and> map_of (satellites self) nid \<noteq> None)"
  using satellite_detail_None_iff [of E t nid] satellite_detail_id [of E t nid]
  by (auto simp: get_satellite_details_def split: option.splits)

lemma example_corrupt_present: "map_of (satellites example_tracker) 99999 = Some corrupt_entry"
  by (simp add: example_tracker_def example_catalog_def)

lemma example_corrupt_not_computable: "\<not> detail_computable example_env 2459946 corrupt_entry"
  using example_corrupt_mean_motion by (simp add: detail_computable_def)

lemma example_iss_computable: "detail_computable example_env 2459946 iss_entry"
  by (simp add: detail_computable_def example_fields iss_entry_def slice_def example_float_def)

text \<open>
  C5 as stated does not hold: the third entry of the example catalog is present, its mean
  motion field does not parse, and the answer for its id is \<open>None\<close>.
\<close>

theorem details_none_for_present_id:
  "map_of (satellites example_tracker) 99999 = Some corrupt_entry
   \<and> get_satellite_details example_env 2459946 example_tracker 99999 = None"
  by (simp add: get_satellite_details_def example_corrupt_present satellite_detail_None_iff
      example_corrupt_not_computable)

theorem details_none_iff_absent_or_failed_witness:
  "map_of (satellites example_tracker) 25544 = Some iss_entry
   \<and> detail_computable example_env 2459946 iss_entry
   \<and> get_satellite_details example_env 2459946 example_tracker 25544 \<noteq> None
   \<and> detail_norad_id (the (get_satellite_details example_env 2459946 example_tracker 25544)) = 25544
   \<and> map_of (satellites example_tracker) 12345 = None
   \<and> get_satellite_details example_env 2459946 example_tracker 12345 = None"
proof -
  note iss = details_none_iff_absent_or_failed [of example_env 2459946 example_tracker 25544]
  from iss example_present example_iss_computable
  have a: "get_satellite_details example_env 2459946 example_tracker 25544 \<noteq> None" by auto
  then obtain det where det: "get_satellite_details example_env 2459946 example_tracker 25544 = Some det"
    by auto
  with iss have "detail_norad_id det = 25544" by blast
  with det have b: "detail_norad_id (the (get_satellite_details example_env 2459946 example_tracker 25544)) = 25544"
    by simp
  from details_none_iff_absent_or_failed [of example_env 2459946 example_tracker 12345] example_absent
  have c: "get_satellite_details example_env 2459946 example_tracker 12345 = None" by blast
  from example_present example_iss_computable a b example_absent c show ?thesis by blast
qed

end
